theory Spec2Isabelle
  imports Complex_Main "HOL-Library.AList" "HOL-Library.Sublist" "HOL-Library.Word"
begin

section \<open>Values of the Python program\<close>

text \<open>
  The plugin \<^verbatim>\<open>GeminiImage\<close> (file \<^verbatim>\<open>plugins/GeminiImg/gemini_image.py\<close>) keeps three
  dictionaries for its conversations, a cache of received images and a directory of
  image files. A Python \<^verbatim>\<open>str\<close> is a sequence of Unicode code points, so it is a list of
  naturals here (its messages are Chinese text, which an 8-bit \<open>char\<close> cannot hold);
  \<open>py\<close> writes an ASCII literal. \<^verbatim>\<open>bytes\<close> is a list of octets. \<^verbatim>\<open>time.time()\<close> is read as
  a real number of seconds, one reading per handled event.
\<close>

type_synonym pystr = "nat list"
type_synonym bytes = "8 word list"

definition py :: "string \<Rightarrow> pystr" where
  "py s = map of_char s"

text \<open>Python truthiness of an optional string or byte buffer: neither \<^verbatim>\<open>None\<close> nor empty.\<close>

definition truthy :: "'a list option \<Rightarrow> bool" where
  "truthy v = (case v of None \<Rightarrow> False | Some s \<Rightarrow> s \<noteq> [])"

subsection \<open>Files\<close>

text \<open>
  The file system is an association list from path to node. \<^verbatim>\<open>open(p, "rb")\<close> raises for
  a missing path or a directory, which is \<open>None\<close> here; \<^verbatim>\<open>open(p, "wb")\<close> creates or
  replaces the file and sets its modification time.
\<close>

record fnode =
  is_dir :: bool
  mtime :: real
  data :: bytes

type_synonym filesystem = "(pystr \<times> fnode) list"

definition path_exists :: "filesystem \<Rightarrow> pystr \<Rightarrow> bool" where
  "path_exists fs p = (map_of fs p \<noteq> None)"

definition read_file :: "filesystem \<Rightarrow> pystr \<Rightarrow> bytes option" where
  "read_file fs p =
     (case map_of fs p of
        None \<Rightarrow> None
      | Some nd \<Rightarrow> if is_dir nd then None else Some (data nd))"

definition write_file :: "filesystem \<Rightarrow> pystr \<Rightarrow> bytes \<Rightarrow> real \<Rightarrow> filesystem" where
  "write_file fs p d now = AList.update p \<lparr>is_dir = False, mtime = now, data = d\<rparr> fs"

text \<open>\<^verbatim>\<open>os.path.join(a, b)\<close> of \<^verbatim>\<open>posixpath\<close>; the separator is code point 47.\<close>

definition path_join :: "pystr \<Rightarrow> pystr \<Rightarrow> pystr" where
  "path_join a b =
     (if b \<noteq> [] \<and> hd b = 47 then b
      else if a = [] \<or> last a = 47 then a @ b
      else a @ [47] @ b)"

subsection \<open>Conversation turns\<close>

datatype turn_part = Text pystr | ImageUrl pystr

record turn =
  role :: pystr
  parts :: "turn_part list"

section \<open>The generation gateway\<close>

text \<open>
  \<^verbatim>\<open>_generate_image\<close> and \<^verbatim>\<open>_edit_image\<close> build a JSON request from the history and the
  prompt, post it, and read the answer. The remote API is a parameter \<open>post\<close>: it maps the
  request to what \<^verbatim>\<open>requests.post\<close> does, which is to raise or to return a status code
  with a body. Payloads are kept as raw bytes (base64 is the wire encoding): the payload
  of an answer is the bytes that \<^verbatim>\<open>base64.b64decode\<close> gives, or the message of the
  exception that it raises. A body is the list of candidates that the code reads from
  \<^verbatim>\<open>response.json()\<close>, or the message of the exception that reading it raises (a body
  that is not JSON, or JSON of another shape).
\<close>

datatype req_part = ReqText pystr | ReqInline pystr bytes

record req_content =
  req_role :: "pystr option"
  req_parts :: "req_part list"

type_synonym request = "req_content list"

datatype payload = Decoded bytes | Undecodable pystr

datatype inline_data = NoData | Data payload

record part =
  part_text :: "pystr option"
  inlineData :: "inline_data option"

record candidate =
  finishReason :: "pystr option"
  content_parts :: "part list"

text \<open>
  The exception classes of \<^verbatim>\<open>requests\<close> that the handlers tell apart. \<^verbatim>\<open>SSLError\<close> and
  \<^verbatim>\<open>ConnectTimeout\<close> are subclasses of \<^verbatim>\<open>ConnectionError\<close>; \<^verbatim>\<open>ConnectTimeout\<close> and
  \<^verbatim>\<open>ReadTimeout\<close> are subclasses of \<^verbatim>\<open>Timeout\<close>. Each carries \<^verbatim>\<open>str(e)\<close>.
\<close>

datatype request_exception =
    SSLError pystr
  | ConnectionError pystr
  | ConnectTimeout pystr
  | ReadTimeout pystr
  | OtherException pystr

datatype body = Parsed "candidate list" | Malformed pystr

datatype http_outcome = Raised request_exception | Response int body

definition image_png :: pystr where
  "image_png = py ''image/png''"

fun process_part :: "filesystem \<Rightarrow> turn_part \<Rightarrow> req_part list" where
  "process_part fs (Text t) = [ReqText t]"
| "process_part fs (ImageUrl p) =
     (case read_file fs p of
        Some d \<Rightarrow> [ReqInline image_png d]
      | None \<Rightarrow> [])"

definition process_msg :: "filesystem \<Rightarrow> turn \<Rightarrow> req_content" where
  "process_msg fs msg =
     \<lparr>req_role = Some (if role msg = py ''assistant'' then py ''model'' else role msg),
      req_parts = concat (map (process_part fs) (parts msg))\<rparr>"

definition build_request :: "filesystem \<Rightarrow> req_part list \<Rightarrow> turn list \<Rightarrow> request" where
  "build_request fs new_parts conversation_history =
     (if conversation_history \<noteq> [] then
        map (process_msg fs) conversation_history
          @ [\<lparr>req_role = Some (py ''user''), req_parts = new_parts\<rparr>]
      else [\<lparr>req_role = None, req_parts = new_parts\<rparr>])"

text \<open>
  The loop over the parts of the first candidate: a part with a non-empty text is a text
  (even if it also carries an image), a part with inline data that has a \<^verbatim>\<open>data\<close> field
  is an image, any other part is skipped. The two lists grow together. The first
  payload that does not decode ends the loop with its exception (\<open>Inl\<close>).
\<close>

definition text_part :: "part \<Rightarrow> bool" where
  "text_part p = truthy (part_text p)"

fun collect_parts ::
  "part list \<Rightarrow> pystr + bytes option list \<times> pystr option list" where
  "collect_parts [] = Inr ([], [])"
| "collect_parts (p # ps) =
     (if text_part p then
        (case collect_parts ps of
           Inl e \<Rightarrow> Inl e
         | Inr (image_datas, text_responses) \<Rightarrow>
             Inr (None # image_datas, part_text p # text_responses))
      else
        (case inlineData p of
           Some (Data (Undecodable e)) \<Rightarrow> Inl e
         | Some (Data (Decoded img_data)) \<Rightarrow>
             (case collect_parts ps of
                Inl e \<Rightarrow> Inl e
              | Inr (image_datas, text_responses) \<Rightarrow>
                  Inr (Some img_data # image_datas, None # text_responses))
         | _ \<Rightarrow> collect_parts ps))"

definition no_image :: "bytes option list \<Rightarrow> bool" where
  "no_image image_datas = (image_datas = [] \<or> list_all (\<lambda>img. img = None) image_datas)"

definition some_text :: "pystr option list \<Rightarrow> bool" where
  "some_text text_responses =
     (text_responses \<noteq> [] \<and> list_ex (\<lambda>t. t \<noteq> None) text_responses)"

definition generate_parts ::
  "part list \<Rightarrow> pystr + bytes option list \<times> pystr option list" where
  "generate_parts ps =
     (case collect_parts ps of
        Inl e \<Rightarrow> Inl e
      | Inr (image_datas, text_responses) \<Rightarrow>
          Inr (if no_image image_datas then
                 (if some_text text_responses then ([], filter truthy text_responses)
                  else ([], []))
               else
                 (let valid_images = filter truthy image_datas;
                      valid_texts = filter truthy text_responses;
                      max_length = max (length valid_images) (length valid_texts)
                  in (valid_images @ replicate (max_length - length valid_images) None,
                      valid_texts @ replicate (max_length - length valid_texts) None))))"

definition generate_failed :: pystr where
  "generate_failed = [22270, 29255, 29983, 25104, 22833, 36133, 58, 32]"

definition edit_failed :: pystr where
  "edit_failed = [22270, 29255, 32534, 36753, 22833, 36133, 58, 32]"

definition ssl_error_text :: pystr where
  "ssl_error_text =
     [83, 83, 76, 36830, 25509, 38169, 35823, 65292, 35831, 26816, 26597, 32593, 32476,
      25110, 20195, 29702, 35774, 32622, 58, 32]"

definition connection_error_text :: pystr where
  "connection_error_text =
     [36830, 25509, 38169, 35823, 65292, 35831, 26816, 26597, 32593, 32476, 25110, 20195,
      29702, 35774, 32622, 58, 32]"

definition timeout_text :: pystr where
  "timeout_text =
     [65, 80, 73, 35843, 29992, 36229, 26102, 65292, 35831, 31245, 21518, 20877, 35797,
      58, 32]"

text \<open>
  The \<^verbatim>\<open>except\<close> clauses in their order: \<^verbatim>\<open>SSLError\<close>, \<^verbatim>\<open>ConnectionError\<close> (which also
  takes a \<^verbatim>\<open>ConnectTimeout\<close>), \<^verbatim>\<open>Timeout\<close>, \<^verbatim>\<open>Exception\<close>. The result is the text after
  the operation's own prefix.
\<close>

fun diagnostic :: "request_exception \<Rightarrow> pystr" where
  "diagnostic (SSLError m) = ssl_error_text @ m"
| "diagnostic (ConnectionError m) = connection_error_text @ m"
| "diagnostic (ConnectTimeout m) = connection_error_text @ m"
| "diagnostic (ReadTimeout m) = timeout_text @ m"
| "diagnostic (OtherException m) = m"

definition generate_image ::
  "(request \<Rightarrow> http_outcome) \<Rightarrow> filesystem \<Rightarrow> pystr \<Rightarrow> turn list
     \<Rightarrow> bytes option list \<times> pystr option list" where
  "generate_image post fs prompt conversation_history =
     (case post (build_request fs [ReqText prompt] conversation_history) of
        Raised e \<Rightarrow> ([], [Some (generate_failed @ diagnostic e)])
      | Response status_code result \<Rightarrow>
          if status_code = 200 then
            (case result of
               Malformed e \<Rightarrow> ([], [Some (generate_failed @ e)])
             | Parsed candidates \<Rightarrow>
                 (case candidates of
                    [] \<Rightarrow> ([], [])
                  | c # _ \<Rightarrow>
                      (case generate_parts (content_parts c) of
                         Inl e \<Rightarrow> ([], [Some (generate_failed @ e)])
                       | Inr returned \<Rightarrow> returned)))
          else ([], []))"

text \<open>
  \<^verbatim>\<open>next((x for x in xs if x), None)\<close>: the first element that is neither \<^verbatim>\<open>None\<close> nor
  empty.
\<close>

definition first_valid :: "'a list option list \<Rightarrow> 'a list option" where
  "first_valid xs = (case filter truthy xs of [] \<Rightarrow> None | x # _ \<Rightarrow> x)"

definition edit_parts :: "part list \<Rightarrow> pystr + bytes option \<times> pystr option" where
  "edit_parts ps =
     (case collect_parts ps of
        Inl e \<Rightarrow> Inl e
      | Inr (image_datas, text_responses) \<Rightarrow>
          Inr (if no_image image_datas then
                 (if some_text text_responses then (None, first_valid text_responses)
                  else (None, None))
               else (first_valid image_datas, first_valid text_responses)))"

definition image_safety :: pystr where
  "image_safety = py ''IMAGE_SAFETY''"

text \<open>
  \<^verbatim>\<open>_edit_image\<close> is given one buffer or a list of buffers and uses the first; with no
  buffer it returns before any request. A policy rejection returns the whole response
  as text: \<open>dumps\<close> stands for \<^verbatim>\<open>json.dumps\<close>.
\<close>

definition edit_image ::
  "(request \<Rightarrow> http_outcome) \<Rightarrow> (candidate list \<Rightarrow> pystr) \<Rightarrow> filesystem \<Rightarrow> pystr
     \<Rightarrow> bytes list \<Rightarrow> turn list \<Rightarrow> bytes option \<times> pystr option" where
  "edit_image post dumps fs prompt image_datas conversation_history =
     (case image_datas of
        [] \<Rightarrow> (None, None)
      | first_image # _ \<Rightarrow>
          (case post (build_request fs [ReqText prompt, ReqInline image_png first_image]
                        conversation_history) of
             Raised e \<Rightarrow> (None, Some (edit_failed @ diagnostic e))
           | Response status_code result \<Rightarrow>
               if status_code = 200 then
                 (case result of
                    Malformed e \<Rightarrow> (None, Some (edit_failed @ e))
                  | Parsed candidates \<Rightarrow>
                      (case candidates of
                         [] \<Rightarrow> (None, None)
                       | c # _ \<Rightarrow>
                           if finishReason c = Some image_safety
                           then (None, Some (dumps candidates))
                           else (case edit_parts (content_parts c) of
                                   Inl e \<Rightarrow> (None, Some (edit_failed @ e))
                                 | Inr returned \<Rightarrow> returned)))
               else (None, None)))"

text \<open>
  A remote API that does the same whatever the request is; the examples use it.
\<close>

definition answering :: "http_outcome \<Rightarrow> request \<Rightarrow> http_outcome" where
  "answering outcome req = outcome"

section \<open>Strings\<close>

definition startswith :: "pystr \<Rightarrow> pystr \<Rightarrow> bool" where
  "startswith s p = prefix p s"

definition endswith :: "pystr \<Rightarrow> pystr \<Rightarrow> bool" where
  "endswith s p = suffix p s"

text \<open>
  \<^verbatim>\<open>str.isspace\<close> of one character: the code points Python counts as whitespace, which
  \<^verbatim>\<open>str.strip()\<close> removes at both ends and at which \<^verbatim>\<open>str.split()\<close> cuts.
\<close>

definition isspace :: "nat \<Rightarrow> bool" where
  "isspace c =
     (c \<in> {9, 10, 11, 12, 13, 28, 29, 30, 31, 32, 133, 160, 5760, 8232, 8233, 8239, 8287,
            12288}
      \<or> (8192 \<le> c \<and> c \<le> 8202))"

definition strip :: "pystr \<Rightarrow> pystr" where
  "strip s = rev (dropWhile isspace (rev (dropWhile isspace s)))"

text \<open>\<^verbatim>\<open>s.split()\<close>: the maximal runs of characters that are not whitespace.\<close>

fun split :: "pystr \<Rightarrow> pystr list" where
  "split [] = []"
| "split (c # cs) =
     (if isspace c then split cs
      else (case cs of
              [] \<Rightarrow> [[c]]
            | d # _ \<Rightarrow>
                if isspace d then [c] # split cs
                else (case split cs of
                        w # ws \<Rightarrow> (c # w) # ws
                      | [] \<Rightarrow> [[c]])))"



text \<open>\<^verbatim>\<open>s.split(sep)\<close> for a separator of one character: empty pieces are kept.\<close>

fun split_on :: "nat \<Rightarrow> pystr \<Rightarrow> pystr list" where
  "split_on sep [] = [[]]"
| "split_on sep (c # cs) =
     (if c = sep then [] # split_on sep cs
      else (case split_on sep cs of
              w # ws \<Rightarrow> (c # w) # ws
            | [] \<Rightarrow> [[c]]))"

text \<open>\<^verbatim>\<open>str(n)\<close> for a natural number.\<close>

fun str_nat :: "nat \<Rightarrow> pystr" where
  "str_nat n = (if n < 10 then [48 + n] else str_nat (n div 10) @ [48 + n mod 10])"

declare str_nat.simps [simp del]

section \<open>The state of the plugin\<close>

text \<open>
  The dictionaries of the plugin object are association lists in insertion order with the
  operations of a Python \<^verbatim>\<open>dict\<close>: \<open>map_of\<close> reads, \<open>AList.update\<close> assigns (in place for a
  key that is there, at the end for a new one), \<open>AList.delete\<close> deletes. An entry of
  \<^verbatim>\<open>last_images\<close> is the list of paths that a generation stored or the single path that an
  edit stored.
\<close>

datatype last_image = ImagePaths "pystr list" | ImagePath pystr

record cache_data =
  content :: "bytes list"
  timestamp :: real

record plugin =
  conversations :: "(pystr \<times> turn list) list"
  conversation_timestamps :: "(pystr \<times> real) list"
  last_images :: "(pystr \<times> last_image) list"
  image_cache :: "(pystr \<times> cache_data) list"
  files :: filesystem
  last_cleanup_time :: real

definition conversation_expiry :: real where
  "conversation_expiry = 600"

definition image_cache_timeout :: real where
  "image_cache_timeout = 300"

text \<open>
  The message object of the chat framework, with the attributes the plugin reads
  (\<open>None\<close> for an attribute that is missing), and the context of an event: its
  type, its content (the text of a text message), the session id, the group flag and
  the message object, if the context carries one.
\<close>

record message =
  actual_user_id :: "pystr option"
  from_user_id :: "pystr option"
  sender_id :: "pystr option"
  sender_wxid :: "pystr option"
  self_display_name :: "pystr option"

datatype context_type = TEXT | IMAGE | OTHER

record chat_context =
  ctype :: context_type
  ctx_content :: pystr
  session_id :: pystr
  isgroup :: bool
  msg :: "message option"

section \<open>The identity of a sender\<close>

text \<open>
  Both \<^verbatim>\<open>_handle_image_message\<close> and \<^verbatim>\<open>_get_recent_image\<close> take \<^verbatim>\<open>actual_user_id\<close> or
  else \<^verbatim>\<open>from_user_id\<close>; when that value is the session id of a group chat they look at
  \<^verbatim>\<open>sender_id\<close>, \<^verbatim>\<open>sender_wxid\<close> and \<^verbatim>\<open>self_display_name\<close>, and keep the value they have
  when none of the three is there.
\<close>

definition primary_sender :: "message \<Rightarrow> pystr option" where
  "primary_sender m =
     (if truthy (actual_user_id m) then actual_user_id m
      else if truthy (from_user_id m) then from_user_id m
      else None)"

definition other_sender :: "message \<Rightarrow> pystr option \<Rightarrow> pystr option" where
  "other_sender m sender =
     (if truthy (sender_id m) then sender_id m
      else if truthy (sender_wxid m) then sender_wxid m
      else if truthy (self_display_name m) then self_display_name m
      else sender)"

text \<open>
  The sender and the cache key of \<^verbatim>\<open>_handle_image_message\<close>. \<^verbatim>\<open>hash\<close> of a string differs
  from process to process, so it is a parameter.
\<close>

definition image_sender :: "(pystr \<Rightarrow> int) \<Rightarrow> chat_context \<Rightarrow> pystr" where
  "image_sender hash ctx =
     (let sender =
            (case msg ctx of
               None \<Rightarrow> None
             | Some m \<Rightarrow>
                 (let sender = primary_sender m in
                  if isgroup ctx \<and> sender = Some (session_id ctx) then other_sender m sender
                  else sender))
      in if truthy sender then the sender
         else py ''user_'' @ str_nat (nat (hash (session_id ctx) mod 10000)))"

definition image_cache_key :: "(pystr \<Rightarrow> int) \<Rightarrow> chat_context \<Rightarrow> pystr" where
  "image_cache_key hash ctx =
     (if isgroup ctx then session_id ctx @ py ''_'' @ image_sender hash ctx
      else image_sender hash ctx)"

section \<open>The image cache\<close>

text \<open>
  \<^verbatim>\<open>_handle_image_message\<close> stores the buffers it obtained under the cache key when there
  is at least one, each is longer than 100 bytes and each opens as an image. How the
  buffers are obtained (from the paths in the message or from the message object) and
  whether a buffer opens as an image are the environment's: \<open>obtained\<close> and \<open>opens\<close>.
\<close>

definition handle_image_message ::
  "(pystr \<Rightarrow> int) \<Rightarrow> (bytes \<Rightarrow> bool) \<Rightarrow> real \<Rightarrow> chat_context \<Rightarrow> bytes list option
     \<Rightarrow> plugin \<Rightarrow> plugin" where
  "handle_image_message hash opens now ctx obtained st =
     (let cache_key = image_cache_key hash ctx in
      case obtained of
        None \<Rightarrow> st
      | Some image_datas \<Rightarrow>
          if image_datas \<noteq> [] \<and> list_all (\<lambda>image_data. length image_data > 100) image_datas
          then (if list_all opens image_datas
                then st\<lparr>image_cache :=
                          AList.update cache_key \<lparr>content = image_datas, timestamp = now\<rparr>
                            (image_cache st)\<rparr>
                else st)
          else st)"

text \<open>
  One lookup of \<^verbatim>\<open>_get_recent_image\<close>: an entry that is there and not older than the
  timeout ends the search with its first buffer (with \<^verbatim>\<open>None\<close> for an entry without
  buffers); \<open>None\<close> here means that the search goes on.
\<close>

definition lookup_recent ::
  "(pystr \<times> cache_data) list \<Rightarrow> real \<Rightarrow> pystr \<Rightarrow> bytes option option" where
  "lookup_recent cache now key =
     (case map_of cache key of
        None \<Rightarrow> None
      | Some cd \<Rightarrow>
          if now - timestamp cd \<le> image_cache_timeout
          then Some (case content cd of [] \<Rightarrow> None | first # _ \<Rightarrow> Some first)
          else None)"

definition group_lookup ::
  "(pystr \<times> cache_data) list \<Rightarrow> real \<Rightarrow> chat_context option \<Rightarrow> bytes option option" where
  "group_lookup cache now current_context =
     (case current_context of
        None \<Rightarrow> None
      | Some ctx \<Rightarrow>
          if isgroup ctx then
            (case msg ctx of
               None \<Rightarrow> None
             | Some m \<Rightarrow>
                 (let sender = primary_sender m;
                      sender = (if sender = Some (session_id ctx) then other_sender m sender
                                else sender)
                  in if truthy sender
                     then lookup_recent cache now (session_id ctx @ py ''_'' @ the sender)
                     else None))
          else None)"

fun scan_keys ::
  "(pystr \<times> cache_data) list \<Rightarrow> real \<Rightarrow> pystr \<Rightarrow> pystr list \<Rightarrow> bytes option option" where
  "scan_keys cache now key [] = None"
| "scan_keys cache now key (cache_key # rest) =
     (if startswith cache_key (key @ py ''_'') \<or> endswith cache_key (py ''_'' @ key)
      then (case lookup_recent cache now cache_key of
              Some r \<Rightarrow> Some r
            | None \<Rightarrow> scan_keys cache now key rest)
      else scan_keys cache now key rest)"

fun try_parts ::
  "(pystr \<times> cache_data) list \<Rightarrow> real \<Rightarrow> pystr list \<Rightarrow> bytes option option" where
  "try_parts cache now [] = None"
| "try_parts cache now (p # ps) =
     (case lookup_recent cache now p of
        Some r \<Rightarrow> Some r
      | None \<Rightarrow> try_parts cache now ps)"

text \<open>
  \<^verbatim>\<open>_get_recent_image\<close>: the key itself, the group key of the current context (the
  attribute \<^verbatim>\<open>current_context\<close> of the plugin, if it has one), the cache keys that start
  with the key and an underscore or end with an underscore and the key, and the pieces
  of a key that contains an underscore.
\<close>

definition get_recent_image ::
  "plugin \<Rightarrow> real \<Rightarrow> chat_context option \<Rightarrow> pystr \<Rightarrow> bytes option" where
  "get_recent_image st now current_context conversation_key =
     (let cache = image_cache st in
      case lookup_recent cache now conversation_key of
        Some r \<Rightarrow> r
      | None \<Rightarrow>
          (case group_lookup cache now current_context of
             Some r \<Rightarrow> r
           | None \<Rightarrow>
               (case scan_keys cache now conversation_key (map fst cache) of
                  Some r \<Rightarrow> r
                | None \<Rightarrow>
                    if 95 \<in> set conversation_key
                    then (case try_parts cache now (split_on 95 conversation_key) of
                            Some r \<Rightarrow> r
                          | None \<Rightarrow> None)
                    else None)))"

section \<open>Expiry\<close>

definition cleanup_image_cache :: "real \<Rightarrow> plugin \<Rightarrow> plugin" where
  "cleanup_image_cache current_time st =
     (let expired_keys =
            map fst (filter (\<lambda>(key, cd). current_time - timestamp cd > image_cache_timeout)
                       (image_cache st))
      in st\<lparr>image_cache := fold AList.delete expired_keys (image_cache st)\<rparr>)"

text \<open>What the sweep, and the exit command, delete for one key.\<close>

definition forget :: "pystr \<Rightarrow> plugin \<Rightarrow> plugin" where
  "forget key st =
     st\<lparr>conversations := AList.delete key (conversations st),
        conversation_timestamps := AList.delete key (conversation_timestamps st),
        last_images := AList.delete key (last_images st)\<rparr>"

definition cleanup_expired_conversations :: "real \<Rightarrow> plugin \<Rightarrow> plugin" where
  "cleanup_expired_conversations current_time st =
     (let expired_keys =
            map fst (filter (\<lambda>(key, t). current_time - t > conversation_expiry)
                       (conversation_timestamps st))
      in fold forget expired_keys st)"

section \<open>The sweep of the image directory\<close>

text \<open>
  \<^verbatim>\<open>os.listdir(d)\<close>: the names of the entries directly in \<open>d\<close>.
\<close>

definition child_name :: "pystr \<Rightarrow> pystr \<Rightarrow> pystr list" where
  "child_name d p =
     (let pre = (if d = [] \<or> last d = 47 then d else d @ [47]);
          name = drop (length pre) p
      in if prefix pre p \<and> name \<noteq> [] \<and> 47 \<notin> set name then [name] else [])"

definition listdir :: "filesystem \<Rightarrow> pystr \<Rightarrow> pystr list" where
  "listdir fs d = concat (map (\<lambda>(p, nd). child_name d p) fs)"

definition plugin_file :: "pystr \<Rightarrow> bool" where
  "plugin_file filename =
     (startswith filename (py ''gemini_'') \<or> startswith filename (py ''edited_'')
      \<or> startswith filename (py ''temp_''))"

text \<open>
  \<^verbatim>\<open>file_path in last_image\<close>: membership when the entry is a list of paths, and the
  substring test of Python strings when the entry is one path.
\<close>

fun path_in :: "pystr \<Rightarrow> last_image \<Rightarrow> bool" where
  "path_in file_path (ImagePaths ps) = (file_path \<in> set ps)"
| "path_in file_path (ImagePath p) = sublist file_path p"

definition in_use :: "(pystr \<times> last_image) list \<Rightarrow> pystr \<Rightarrow> bool" where
  "in_use images file_path = list_ex (\<lambda>(key, last_image). path_in file_path last_image) images"

text \<open>
  The body of the loop over the directory. A name whose file is gone by now makes
  \<^verbatim>\<open>os.path.getmtime\<close> raise, which the loop catches and passes over.
\<close>

definition sweep_file ::
  "(pystr \<times> last_image) list \<Rightarrow> real \<Rightarrow> real \<Rightarrow> pystr \<Rightarrow> pystr \<Rightarrow> filesystem
     \<Rightarrow> filesystem" where
  "sweep_file images current_time max_age_seconds save_dir filename fs =
     (let file_path = path_join save_dir filename in
      case map_of fs file_path of
        None \<Rightarrow> fs
      | Some nd \<Rightarrow>
          if is_dir nd then fs
          else if plugin_file filename then
            (if current_time - mtime nd > max_age_seconds then
               (if in_use images file_path then fs else AList.delete file_path fs)
             else fs)
          else fs)"

definition cleanup_temp_files :: "pystr \<Rightarrow> real \<Rightarrow> real \<Rightarrow> plugin \<Rightarrow> plugin" where
  "cleanup_temp_files save_dir current_time max_age_hours st =
     (if \<not> path_exists (files st) save_dir then st
      else st\<lparr>files :=
                fold (sweep_file (last_images st) current_time (max_age_hours * 3600) save_dir)
                  (listdir (files st) save_dir) (files st)\<rparr>)"

section \<open>Activity\<close>

text \<open>
  A successful generation or edit stamps the key with the time:
  \<^verbatim>\<open>self.conversation_timestamps[conversation_key] = time.time()\<close>.
\<close>

definition touch :: "pystr \<Rightarrow> real \<Rightarrow> plugin \<Rightarrow> plugin" where
  "touch key now st =
     st\<lparr>conversation_timestamps := AList.update key now (conversation_timestamps st)\<rparr>"

text \<open>The plugin right after \<^verbatim>\<open>__init__\<close> at time \<open>t\<close>, with an empty file system.\<close>

definition new_plugin :: "real \<Rightarrow> plugin" where
  "new_plugin t =
     \<lparr>conversations = [], conversation_timestamps = [], last_images = [], image_cache = [],
      files = [], last_cleanup_time = t\<rparr>"

text \<open>
  Two parameters for the examples: a hash function and a check that takes every
  buffer for an image.
\<close>

definition hash_zero :: "pystr \<Rightarrow> int" where
  "hash_zero s = 0"

definition opens_always :: "bytes \<Rightarrow> bool" where
  "opens_always d = True"

section \<open>The command handlers\<close>

text \<open>
  The configuration that \<^verbatim>\<open>__init__\<close> reads (with the attribute \<^verbatim>\<open>auto_edit\<close>, which
  \<^verbatim>\<open>__init__\<close> sets to \<^verbatim>\<open>False\<close>), and what one event takes from outside the
  plugin: the clock (\<^verbatim>\<open>time.time()\<close> and the hour of \<^verbatim>\<open>time.localtime\<close>), the remote
  API, \<^verbatim>\<open>json.dumps\<close>, the hexadecimal prefixes of the \<^verbatim>\<open>uuid4\<close> values in the order in which
  they are drawn, \<^verbatim>\<open>hash\<close>, the image check of \<^verbatim>\<open>PIL\<close>, the buffers obtained for an image
  message, and the attribute \<^verbatim>\<open>current_context\<close>. The replies that the handlers send to
  the channel are not part of the model: it follows the dictionaries and the files.
\<close>

record config =
  enable :: bool
  api_key :: pystr
  commands :: "pystr list"
  edit_commands :: "pystr list"
  exit_commands :: "pystr list"
  save_dir :: pystr
  auto_edit :: bool

record environment =
  env_now :: real
  env_hour :: nat
  env_post :: "request \<Rightarrow> http_outcome"
  env_dumps :: "candidate list \<Rightarrow> pystr"
  env_uuid :: "nat \<Rightarrow> pystr"
  env_hash :: "pystr \<Rightarrow> int"
  env_opens :: "bytes \<Rightarrow> bool"
  env_obtained :: "bytes list option"
  env_context :: "chat_context option"

text \<open>\<^verbatim>\<open>str(int(x))\<close>: the conversion truncates towards zero.\<close>

definition str_int :: "real \<Rightarrow> pystr" where
  "str_int x = (if x < 0 then (if \<lceil>x\<rceil> = 0 then py ''0'' else py ''-'' @ str_nat (nat (- \<lceil>x\<rceil>)))
                else str_nat (nat \<lfloor>x\<rfloor>))"

text \<open>
  The text that goes into a file name: the characters \<^verbatim>\<open>/ \ : *\<close> become underscores,
  and a text of more than 30 characters is cut to 30 and three dots.
\<close>

definition clean_text_of :: "pystr \<Rightarrow> pystr" where
  "clean_text_of t =
     (let t = map (\<lambda>c. if c = 47 \<or> c = 92 \<or> c = 58 \<or> c = 42 then 95 else c) t
      in if length t > 30 then take 30 t @ py ''...'' else t)"

definition file_name :: "pystr \<Rightarrow> environment \<Rightarrow> nat \<Rightarrow> pystr \<Rightarrow> pystr" where
  "file_name kind env k ending =
     kind @ py ''_'' @ str_int (env_now env) @ py ''_'' @ env_uuid env k @ ending @ py ''.png''"

text \<open>
  \<^verbatim>\<open>self.conversations\<close> is a \<^verbatim>\<open>defaultdict(list)\<close>: reading a key that is not there puts
  an empty list under it. The list that is read is the stored object, so \<^verbatim>\<open>extend\<close> and
  \<^verbatim>\<open>append\<close> on it change the dictionary: \<open>extend_history\<close>.
\<close>

definition history_of :: "pystr \<Rightarrow> plugin \<Rightarrow> turn list \<times> plugin" where
  "history_of key st =
     (case map_of (conversations st) key of
        Some h \<Rightarrow> (h, st)
      | None \<Rightarrow> ([], st\<lparr>conversations := AList.update key [] (conversations st)\<rparr>))"

definition extend_history :: "pystr \<Rightarrow> turn list \<Rightarrow> plugin \<Rightarrow> plugin" where
  "extend_history key new_turns st =
     st\<lparr>conversations :=
          AList.update key
            ((case map_of (conversations st) key of Some h \<Rightarrow> h | None \<Rightarrow> []) @ new_turns)
            (conversations st)\<rparr>"

text \<open>
  The last lines of every update of a history,
  \<^verbatim>\<open>if len(conversation_history) > 10: conversation_history = conversation_history[-10:]\<close>,
  give the local name a new list of the last ten turns. This is the value of the local
  name afterwards; the handlers do not read it again.
\<close>

definition limited :: "turn list \<Rightarrow> turn list" where
  "limited conversation_history =
     (if length conversation_history > 10
      then drop (length conversation_history - 10) conversation_history
      else conversation_history)"

definition generated_text :: pystr where
  "generated_text = [25105, 24050, 29983, 25104, 20102, 22270, 29255]"

definition edited_text :: pystr where
  "edited_text = [25105, 24050, 32534, 36753, 20102, 22270, 29255]"

definition edit_success :: pystr where
  "edit_success = [22270, 29255, 32534, 36753, 25104, 21151, 65281]"

definition modify_success :: pystr where
  "modify_success = [22270, 29255, 20462, 25913, 25104, 21151, 65281]"

definition started_note :: "pystr \<Rightarrow> pystr" where
  "started_note exit_command =
     [65288, 24050, 24320, 22987, 22270, 20687, 23545, 35805, 65292, 21487, 20197, 32487,
      32493, 21457, 36865, 21629, 20196, 20462, 25913, 22270, 29255, 12290, 38656, 35201,
      32467, 26463, 26102, 35831, 21457, 36865, 34]
     @ exit_command @ [34, 65289]"

definition user_turn :: "turn_part list \<Rightarrow> turn" where
  "user_turn ps = \<lparr>role = py ''user'', parts = ps\<rparr>"

definition model_turn :: "pystr option \<Rightarrow> pystr \<Rightarrow> pystr \<Rightarrow> turn" where
  "model_turn t fallback image_path =
     \<lparr>role = py ''model'',
      parts = [Text (if truthy t then the t else fallback), ImageUrl image_path]\<rparr>"

subsection \<open>Generation\<close>

text \<open>
  The loop that saves the images: \<open>i\<close> is the index in the list, \<open>k\<close> the number of
  uuids drawn so far. It returns the paths and the file system.
\<close>

fun save_images ::
  "config \<Rightarrow> environment \<Rightarrow> pystr list \<Rightarrow> nat \<Rightarrow> nat \<Rightarrow> bytes option list \<Rightarrow> filesystem
     \<Rightarrow> pystr list \<times> filesystem" where
  "save_images cfg env clean_texts i k [] fs = ([], fs)"
| "save_images cfg env clean_texts i k (None # rest) fs =
     save_images cfg env clean_texts (Suc i) k rest fs"
| "save_images cfg env clean_texts i k (Some image_data # rest) fs =
     (let clean_text = (if i < length clean_texts then clean_texts ! i
                        else py ''image_'' @ str_nat i);
          image_path = path_join (save_dir cfg)
                         (file_name (py ''gemini'') env k (py ''_'' @ clean_text));
          (paths, fs') = save_images cfg env clean_texts (Suc i) (Suc k) rest
                           (write_file fs image_path image_data (env_now env))
      in (image_path # paths, fs'))"

text \<open>The loop that sends the replies writes one more file for every image.\<close>

fun send_images ::
  "config \<Rightarrow> environment \<Rightarrow> nat \<Rightarrow> nat \<Rightarrow> bytes option list \<Rightarrow> filesystem \<Rightarrow> filesystem" where
  "send_images cfg env i k [] fs = fs"
| "send_images cfg env i k (img_data # rest) fs =
     (if truthy img_data
      then send_images cfg env (Suc i) (Suc k) rest
             (write_file fs
                (path_join (save_dir cfg) (file_name (py ''temp'') env k (py ''_'' @ str_nat i)))
                (the img_data) (env_now env))
      else send_images cfg env (Suc i) k rest fs)"

definition clean_texts_of :: "pystr option list \<Rightarrow> pystr list" where
  "clean_texts_of text_responses =
     (if some_text text_responses then
        (let valid_responses = filter truthy text_responses in
         if valid_responses \<noteq> [] then map (\<lambda>t. clean_text_of (the t)) valid_responses
         else [py ''generated_image''])
      else [py ''generated_image''])"

definition assistant_messages :: "pystr list \<Rightarrow> pystr option list \<Rightarrow> turn list" where
  "assistant_messages image_paths text_responses =
     map (\<lambda>i. model_turn (if i < length text_responses then text_responses ! i else None)
                generated_text (image_paths ! i))
       [0 ..< length image_paths]"

definition generate_command ::
  "config \<Rightarrow> environment \<Rightarrow> pystr \<Rightarrow> pystr \<Rightarrow> plugin \<Rightarrow> plugin" where
  "generate_command cfg env conversation_key prompt st0 =
     (let (conversation_history, st) = history_of conversation_key st0;
          (image_datas, text_responses) =
             generate_image (env_post env) (files st) prompt conversation_history
      in if image_datas = [] then st
         else
           (let (image_paths, fs) =
                   save_images cfg env (clean_texts_of text_responses) 0 0 image_datas (files st);
                st = st\<lparr>files := fs\<rparr>
            in if image_paths = [] then st
               else
                 (let st = st\<lparr>last_images :=
                                  AList.update conversation_key (ImagePaths image_paths)
                                    (last_images st)\<rparr>;
                      user_messages = map (\<lambda>prompt. user_turn [Text prompt]) (split prompt);
                      st = extend_history conversation_key user_messages st;
                      st = extend_history conversation_key
                             (assistant_messages image_paths text_responses) st;
                      conversation_history =
                        limited (conversation_history @ user_messages
                                   @ assistant_messages image_paths text_responses);
                      st = touch conversation_key (env_now env) st
                  in st\<lparr>files := send_images cfg env 0 (length image_paths) image_datas
                                     (files st)\<rparr>)))"

subsection \<open>Editing\<close>

text \<open>
  The path that an entry of \<^verbatim>\<open>last_images\<close> stands for: of a non-empty list the first
  path that exists, \<open>None\<close> when there is no entry or none exists.
\<close>

definition last_image_path :: "plugin \<Rightarrow> pystr \<Rightarrow> pystr option" where
  "last_image_path st key =
     (case map_of (last_images st) key of
        None \<Rightarrow> None
      | Some (ImagePath p) \<Rightarrow> Some p
      | Some (ImagePaths []) \<Rightarrow> Some []
      | Some (ImagePaths ps) \<Rightarrow> find (path_exists (files st)) ps)"

text \<open>
  What an edit that returned an image stores. The note about the new conversation
  reads \<^verbatim>\<open>self.exit_commands[0]\<close>, which raises for an empty list; the handler catches
  the exception, and nothing of the result is stored then.
\<close>

definition store_edit ::
  "config \<Rightarrow> environment \<Rightarrow> pystr \<Rightarrow> pystr \<Rightarrow> nat \<Rightarrow> pystr \<Rightarrow> pystr \<Rightarrow> bytes
     \<Rightarrow> pystr option \<Rightarrow> pystr \<Rightarrow> turn list \<Rightarrow> plugin \<Rightarrow> plugin" where
  "store_edit cfg env kind conversation_key k prompt image_path result_image text_response
     reply_text conversation_history st =
     (let new_path = path_join (save_dir cfg)
                       (file_name kind env k (py ''_'' @ clean_text_of reply_text));
          st = st\<lparr>files := write_file (files st) new_path result_image (env_now env)\<rparr>;
          st = st\<lparr>last_images := AList.update conversation_key (ImagePath new_path)
                                     (last_images st)\<rparr>;
          new_turns = [user_turn [Text prompt, ImageUrl image_path],
                       model_turn text_response edited_text new_path];
          st = extend_history conversation_key new_turns st;
          conversation_history = limited (conversation_history @ new_turns)
      in touch conversation_key (env_now env) st)"

text \<open>
  The edit command. When the cache has no image for the key the handler looks at the
  last image of the key, and then returns in either case: the two lines that end this
  branch stand after the \<^verbatim>\<open>if\<close>/\<^verbatim>\<open>else\<close>, not in the \<^verbatim>\<open>else\<close>.
\<close>

definition edit_command ::
  "config \<Rightarrow> environment \<Rightarrow> pystr \<Rightarrow> pystr \<Rightarrow> plugin \<Rightarrow> plugin" where
  "edit_command cfg env conversation_key prompt st0 =
     (let image_data = get_recent_image st0 (env_now env) (env_context env) conversation_key
      in if \<not> truthy image_data then st0
         else
           (let image_path = path_join (save_dir cfg) (file_name (py ''temp'') env 0 []);
                st = st0\<lparr>files := write_file (files st0) image_path (the image_data)
                                     (env_now env)\<rparr>;
                st = st\<lparr>last_images := AList.update conversation_key (ImagePath image_path)
                                           (last_images st)\<rparr>;
                (conversation_history, st) = history_of conversation_key st;
                (result_image, text_response) =
                   edit_image (env_post env) (env_dumps env) (files st) prompt [the image_data]
                     conversation_history
            in if truthy result_image then
                 (let reply_text = (if truthy text_response then the text_response
                                    else edit_success)
                  in if length conversation_history \<le> 2 then
                       (case exit_commands cfg of
                          [] \<Rightarrow> st
                        | exit_command # _ \<Rightarrow>
                            store_edit cfg env (py ''edited'') conversation_key 1 prompt
                              image_path (the result_image) text_response
                              (reply_text @ started_note exit_command) conversation_history st)
                     else store_edit cfg env (py ''edited'') conversation_key 1 prompt
                            image_path (the result_image) text_response reply_text
                            conversation_history st)
               else st))"

text \<open>
  A text that is no command, when \<^verbatim>\<open>auto_edit\<close> is set and the key has a history: the
  edit of the last image.
\<close>

definition continue_conversation ::
  "config \<Rightarrow> environment \<Rightarrow> pystr \<Rightarrow> pystr \<Rightarrow> plugin \<Rightarrow> plugin" where
  "continue_conversation cfg env conversation_key message_text st0 =
     (case last_image_path st0 conversation_key of
        None \<Rightarrow> st0
      | Some p \<Rightarrow>
          if p = [] \<or> \<not> path_exists (files st0) p then st0
          else
            (let (conversation_history, st) = history_of conversation_key st0 in
             case read_file (files st) p of
               None \<Rightarrow> st
             | Some image_data \<Rightarrow>
                 (let (result_image, text_response) =
                        edit_image (env_post env) (env_dumps env) (files st) message_text
                          [image_data] conversation_history
                  in if truthy result_image then
                       store_edit cfg env (py ''gemini'') conversation_key 0 message_text p
                         (the result_image) text_response
                         (if truthy text_response then the text_response else modify_success)
                         conversation_history st
                     else st)))"

subsection \<open>The dispatch of an event\<close>

text \<open>
  \<^verbatim>\<open>on_handle_context\<close> sweeps the conversations and the image cache, sweeps the image
  directory when the hour is between 2 and 4 and the last sweep is more than six hours
  ago, and then handles the event by its type and its text: the exit commands, the
  generate commands, the edit commands, and the continuation of a conversation. The
  thread that \<^verbatim>\<open>__init__\<close> starts calls \<^verbatim>\<open>_cleanup_temp_files\<close> on its own clock; it is
  not part of an event.
\<close>

definition exit_conversation :: "pystr \<Rightarrow> plugin \<Rightarrow> plugin" where
  "exit_conversation conversation_key st =
     (if map_of (conversations st) conversation_key \<noteq> None then forget conversation_key st
      else st)"

definition nightly_cleanup :: "config \<Rightarrow> environment \<Rightarrow> plugin \<Rightarrow> plugin" where
  "nightly_cleanup cfg env st =
     (if 2 \<le> env_hour env \<and> env_hour env \<le> 4
         \<and> env_now env - last_cleanup_time st > 6 * 3600
      then (cleanup_temp_files (save_dir cfg) (env_now env) 24 st)
             \<lparr>last_cleanup_time := env_now env\<rparr>
      else st)"

definition command_prompt :: "pystr list \<Rightarrow> pystr \<Rightarrow> pystr option" where
  "command_prompt cmds message_text =
     (case find (\<lambda>cmd. startswith message_text cmd) cmds of
        None \<Rightarrow> None
      | Some cmd \<Rightarrow> Some (strip (drop (length cmd) message_text)))"

definition on_handle_context :: "config \<Rightarrow> environment \<Rightarrow> chat_context \<Rightarrow> plugin \<Rightarrow> plugin" where
  "on_handle_context cfg env ctx st0 =
     (if \<not> enable cfg then st0
      else
        (let st = cleanup_expired_conversations (env_now env) st0;
             st = cleanup_image_cache (env_now env) st;
             st = nightly_cleanup cfg env st;
             conversation_key = session_id ctx
         in if ctype ctx = IMAGE
            then handle_image_message (env_hash env) (env_opens env) (env_now env) ctx
                   (env_obtained env) st
            else if ctype ctx \<noteq> TEXT then st
            else
              (let message_text = strip (ctx_content ctx) in
               if message_text \<in> set (exit_commands cfg)
               then exit_conversation conversation_key st
               else
                 (case command_prompt (commands cfg) message_text of
                    Some prompt \<Rightarrow>
                      if prompt = [] \<or> api_key cfg = [] then st
                      else generate_command cfg env conversation_key prompt st
                  | None \<Rightarrow>
                      (case command_prompt (edit_commands cfg) message_text of
                         Some prompt \<Rightarrow>
                           if prompt = [] \<or> api_key cfg = [] then st
                           else edit_command cfg env conversation_key prompt st
                       | None \<Rightarrow>
                           if auto_edit cfg
                              \<and> map_of (conversations st) conversation_key \<noteq> None
                           then continue_conversation cfg env conversation_key message_text st
                           else st)))))"

section \<open>An example installation\<close>

text \<open>
  A configuration with one command of each kind, an environment whose remote API gives
  a fixed outcome at a fixed time, an answer that holds one image, and the text message
  of the user \<^verbatim>\<open>alice\<close> in a direct chat. The examples of the properties below run the
  handlers on them.
\<close>

definition example_config :: config where
  "example_config =
     \<lparr>enable = True, api_key = py ''key'', commands = [py ''$draw''],
      edit_commands = [py ''$edit''], exit_commands = [py ''$end''],
      save_dir = py ''/d'', auto_edit = False\<rparr>"

definition example_uuid :: "nat \<Rightarrow> pystr" where
  "example_uuid k = py ''0000000'' @ str_nat k"

definition example_dumps :: "candidate list \<Rightarrow> pystr" where
  "example_dumps body = py ''{}''"

definition example_env :: "http_outcome \<Rightarrow> real \<Rightarrow> environment" where
  "example_env outcome t =
     \<lparr>env_now = t, env_hour = 12, env_post = answering outcome, env_dumps = example_dumps,
      env_uuid = example_uuid, env_hash = hash_zero, env_opens = opens_always,
      env_obtained = None, env_context = None\<rparr>"

definition one_image :: http_outcome where
  "one_image =
     Response 200
       (Parsed
          [\<lparr>finishReason = None,
            content_parts =
              [\<lparr>part_text = None, inlineData = Some (Data (Decoded [1, 2, 3]))\<rparr>]\<rparr>])"

definition text_from_alice :: "pystr \<Rightarrow> chat_context" where
  "text_from_alice t =
     \<lparr>ctype = TEXT, ctx_content = t, session_id = py ''alice'', isgroup = False, msg = None\<rparr>"

text \<open>
  The plugin after five exchanges with \<^verbatim>\<open>alice\<close>, the last of them at time 900: her
  history holds ten turns.
\<close>

definition five_exchanges :: "turn list" where
  "five_exchanges =
     concat (replicate 5
       [user_turn [Text (py ''cat'')],
        model_turn None generated_text (py ''/d/gemini_900_00000000_generated_image.png'')])"

definition after_five_exchanges :: plugin where
  "after_five_exchanges =
     (new_plugin 0)
       \<lparr>conversations := [(py ''alice'', five_exchanges)],
        conversation_timestamps := [(py ''alice'', 900)],
        last_images :=
          [(py ''alice'', ImagePaths [py ''/d/gemini_900_00000000_generated_image.png''])]\<rparr>"

text \<open>The plugin that holds an image which \<^verbatim>\<open>alice\<close> sent at time 990, and nothing else.\<close>

definition with_cached_image :: plugin where
  "with_cached_image =
     (new_plugin 0)
       \<lparr>image_cache := [(py ''alice'', \<lparr>content = [[1, 2, 3]], timestamp = 990\<rparr>)]\<rparr>"


text \<open>
  The plugin with an image directory \<^verbatim>\<open>/d\<close> that holds a file which is the last image of
  \<^verbatim>\<open>alice\<close>, a file of the plugin that nobody refers to, a directory with a name of the
  plugin, and a file with another name. All are of time 5.
\<close>

definition old_files :: plugin where
  "old_files =
     (new_plugin 0)
       \<lparr>last_images := [(py ''alice'', ImagePaths [py ''/d/gemini_1.png''])],
        files := [(py ''/d'', \<lparr>is_dir = True, mtime = 0, data = []\<rparr>),
                  (py ''/d/gemini_1.png'', \<lparr>is_dir = False, mtime = 5, data = [1]\<rparr>),
                  (py ''/d/temp_2.png'', \<lparr>is_dir = False, mtime = 5, data = [2]\<rparr>),
                  (py ''/d/temp_3'', \<lparr>is_dir = True, mtime = 5, data = []\<rparr>),
                  (py ''/d/photo.png'', \<lparr>is_dir = False, mtime = 5, data = [4]\<rparr>)]\<rparr>"

section \<open>Properties of the gateway\<close>

lemma truthy_simps [simp]:
  "truthy None = False" "truthy (Some s) = (s \<noteq> [])"
  by (simp_all add: truthy_def)

text \<open>
  Claim C9. When the remote API answers with a status code other than 200,
  \<^verbatim>\<open>_generate_image\<close> returns two empty lists and \<^verbatim>\<open>_edit_image\<close> returns
  \<^verbatim>\<open>(None, None)\<close>, with no diagnostic text; these are the very results of a 200
  answer that has no candidate, so the caller cannot tell the two apart.
\<close>

theorem non_200_status_gives_empty_result:
  assumes "\<forall>req. \<exists>status_code body. post req = Response status_code body \<and> status_code \<noteq> 200"
  shows "generate_image post fs prompt h = ([], [])
       \<and> edit_image post dumps fs prompt image_datas h = (None, None)
       \<and> generate_image post fs prompt h = generate_image (\<lambda>req. Response 200 (Parsed [])) fs prompt h
       \<and> edit_image post dumps fs prompt image_datas h
           = edit_image (\<lambda>req. Response 200 (Parsed [])) dumps fs prompt image_datas h"
proof -
  have g: "generate_image post fs prompt h = ([], [])"
    using assms[rule_format, of "build_request fs [ReqText prompt] h"]
    by (auto simp: generate_image_def)
  have e: "edit_image post dumps fs prompt image_datas h = (None, None)"
  proof (cases image_datas)
    case Nil
    then show ?thesis by (simp add: edit_image_def)
  next
    case (Cons first_image rest)
    then show ?thesis
      using assms[rule_format,
          of "build_request fs [ReqText prompt, ReqInline image_png first_image] h"]
      by (auto simp: edit_image_def)
  qed
  have g0: "generate_image (\<lambda>req. Response 200 (Parsed [])) fs prompt h = ([], [])"
    by (simp add: generate_image_def)
  have e0: "edit_image (\<lambda>req. Response 200 (Parsed [])) dumps fs prompt image_datas h = (None, None)"
    by (cases image_datas) (simp_all add: edit_image_def)
  show ?thesis using g e g0 e0 by simp
qed

theorem non_200_status_gives_empty_result_witness:
  "generate_image (\<lambda>req. Response 500 (Parsed [])) [] (py ''cat'') [] = ([], [])
   \<and> edit_image (\<lambda>req. Response 500 (Parsed [])) (\<lambda>body. []) [] (py ''cat'') [[1, 2, 3]] []
       = (None, None)"
proof -
  have h: "\<forall>req. \<exists>status_code body.
             (\<lambda>req. Response 500 (Parsed [])) (req :: request) = Response status_code body
             \<and> status_code \<noteq> 200"
    by simp
  show ?thesis
    using non_200_status_gives_empty_result
      [OF h, of "[]" "py ''cat''" "[]" "\<lambda>body. []" "[[1, 2, 3]]"]
    by simp
qed

text \<open>
  Claim C4. A transport failure inside the request (a timeout, a TLS error, a connection
  error, or any other exception) does not leave \<^verbatim>\<open>_generate_image\<close> or \<^verbatim>\<open>_edit_image\<close>
  as an exception: every \<^verbatim>\<open>except\<close> clause returns. \<^verbatim>\<open>_generate_image\<close> returns the
  empty image list with one non-empty diagnostic text, and \<^verbatim>\<open>_edit_image\<close>, which
  posts a request only when it was given an image, returns \<^verbatim>\<open>None\<close> with a non-empty
  diagnostic text.
\<close>

theorem transport_failure_returns_diagnostic:
  assumes "\<forall>req. \<exists>e. post req = Raised e"
  shows "(\<exists>msg. msg \<noteq> [] \<and> generate_image post fs prompt h = ([], [Some msg]))
       \<and> (image_datas \<noteq> [] \<longrightarrow>
            (\<exists>msg. msg \<noteq> []
               \<and> edit_image post dumps fs prompt image_datas h = (None, Some msg)))"
proof (intro conjI impI)
  obtain e where "post (build_request fs [ReqText prompt] h) = Raised e"
    using assms by blast
  then show "\<exists>msg. msg \<noteq> [] \<and> generate_image post fs prompt h = ([], [Some msg])"
    by (simp add: generate_image_def generate_failed_def)
next
  assume "image_datas \<noteq> []"
  then obtain first_image rest where c: "image_datas = first_image # rest"
    by (cases image_datas) auto
  obtain e where
    "post (build_request fs [ReqText prompt, ReqInline image_png first_image] h) = Raised e"
    using assms by blast
  then show "\<exists>msg. msg \<noteq> []
               \<and> edit_image post dumps fs prompt image_datas h = (None, Some msg)"
    using c by (simp add: edit_image_def edit_failed_def)
qed

theorem transport_failure_returns_diagnostic_witness:
  "(\<exists>msg. msg \<noteq> []
      \<and> generate_image (answering (Raised (ReadTimeout (py ''timed out'')))) [] (py ''cat'') []
          = ([], [Some msg]))
   \<and> (\<exists>msg. msg \<noteq> []
      \<and> edit_image (answering (Raised (SSLError (py ''bad handshake'')))) (\<lambda>body. []) []
            (py ''cat'') [[1, 2, 3]] [] = (None, Some msg))"
proof -
  have h1: "\<forall>req. \<exists>e. answering (Raised (ReadTimeout (py ''timed out''))) req = Raised e"
    by (simp add: answering_def)
  have h2: "\<forall>req. \<exists>e. answering (Raised (SSLError (py ''bad handshake''))) req = Raised e"
    by (simp add: answering_def)
  have i: "[[1, 2, 3 :: 8 word]] \<noteq> []" by simp
  show ?thesis
    using transport_failure_returns_diagnostic [OF h1, of "[]" "py ''cat''" "[]"]
      transport_failure_returns_diagnostic
        [OF h2, of "[]" "py ''cat''" "[]" "[[1, 2, 3]]" "\<lambda>body. []"] i
    by blast
qed

subsection \<open>Answers that cannot be read\<close>

text \<open>
  A 200 answer whose body cannot be read, or whose first candidate has an image part
  whose payload does not decode, ends in the last \<^verbatim>\<open>except\<close> clause: the result has no
  image, and its text is the prefix of the operation and the message of the exception.
  A text part before the payload does not reach the result.
\<close>

lemma malformed_body_gives_failure_text:
  "generate_image (answering (Response 200 (Malformed e))) fs prompt h
     = ([], [Some (generate_failed @ e)])"
  "edit_image (answering (Response 200 (Malformed e))) dumps fs prompt (first_image # rest) h
     = (None, Some (edit_failed @ e))"
  by (simp_all add: generate_image_def edit_image_def answering_def)

lemma undecodable_payload_gives_failure_text:
  "generate_image
     (answering (Response 200 (Parsed
        [\<lparr>finishReason = None,
          content_parts =
            [\<lparr>part_text = Some [65], inlineData = None\<rparr>,
             \<lparr>part_text = None, inlineData = Some (Data (Undecodable e))\<rparr>]\<rparr>])))
     fs prompt h
     = ([], [Some (generate_failed @ e)])"
  "edit_image
     (answering (Response 200 (Parsed
        [\<lparr>finishReason = None,
          content_parts =
            [\<lparr>part_text = Some [65], inlineData = None\<rparr>,
             \<lparr>part_text = None, inlineData = Some (Data (Undecodable e))\<rparr>]\<rparr>])))
     dumps fs prompt (first_image # rest) h
     = (None, Some (edit_failed @ e))"
  by (simp_all add: generate_image_def edit_image_def answering_def generate_parts_def
      edit_parts_def text_part_def)

subsection \<open>The two lists of \<^verbatim>\<open>_generate_image\<close>\<close>

text \<open>
  Claim C2. The docstring of \<^verbatim>\<open>_generate_image\<close> promises the images and the texts in the
  order of the answer, and the loop over the parts keeps the two lists aligned: it puts
  \<^verbatim>\<open>None\<close> into the image list at the position of a text and \<^verbatim>\<open>None\<close> into the text
  list at the position of an image. The two filters that follow the loop throw the
  positions away. For the parts text \<^verbatim>\<open>A\<close>, image \<^verbatim>\<open>X\<close>, text \<^verbatim>\<open>B\<close> the function
  returns the images \<^verbatim>\<open>[X, None]\<close> and the texts \<^verbatim>\<open>[A, B]\<close>, not \<^verbatim>\<open>[None, X, None]\<close>
  and \<^verbatim>\<open>[A, None, B]\<close>; and an answer with the image before the text gives the same two
  lists as the answer with the text before the image, so the order of the answer cannot
  be read from the result.
\<close>

theorem generate_lists_lose_positions:
  "generate_image
     (answering (Response 200 (Parsed
        [\<lparr>finishReason = None,
          content_parts =
            [\<lparr>part_text = Some [65], inlineData = None\<rparr>,
             \<lparr>part_text = None, inlineData = Some (Data (Decoded [88]))\<rparr>,
             \<lparr>part_text = Some [66], inlineData = None\<rparr>]\<rparr>])))
     [] [99, 97, 116] []
     = ([Some [88], None], [Some [65], Some [66]])
   \<and> generate_image
       (answering (Response 200 (Parsed
          [\<lparr>finishReason = None,
            content_parts =
              [\<lparr>part_text = None, inlineData = Some (Data (Decoded [88]))\<rparr>,
               \<lparr>part_text = Some [65], inlineData = None\<rparr>]\<rparr>])))
       [] [99, 97, 116] []
       = ([Some [88]], [Some [65]])
   \<and> generate_image
       (answering (Response 200 (Parsed
          [\<lparr>finishReason = None,
            content_parts =
              [\<lparr>part_text = Some [65], inlineData = None\<rparr>,
               \<lparr>part_text = None, inlineData = Some (Data (Decoded [88]))\<rparr>]\<rparr>])))
       [] [99, 97, 116] []
       = ([Some [88]], [Some [65]])"
  by (simp add: generate_image_def answering_def generate_parts_def text_part_def
      no_image_def some_text_def)

section \<open>Properties of the expiry sweep\<close>

lemma map_of_fold_delete:
  "map_of (fold AList.delete ks al) k = (if k \<in> set ks then None else map_of al k)"
  by (induction ks arbitrary: al) (auto simp: delete_conv')








section \<open>Properties of the identity of a sender\<close>

text \<open>
  Claim C7. In a group chat whose message gives the group id as \<^verbatim>\<open>from_user_id\<close> and has
  none of \<^verbatim>\<open>sender_id\<close>, \<^verbatim>\<open>sender_wxid\<close> and \<^verbatim>\<open>self_display_name\<close>, the sender that
  \<^verbatim>\<open>_handle_image_message\<close> arrives at is the group id itself, and the cache key is
  the group id twice. The claim asks for a key that never has the group id as its sender
  part; the code leaves the discarded candidate in place when no other is there.
\<close>

theorem group_id_kept_as_sender:
  "image_cache_key hash
     \<lparr>ctype = IMAGE, ctx_content = [], session_id = py ''room1'', isgroup = True,
      msg = Some \<lparr>actual_user_id = None, from_user_id = Some (py ''room1''),
                  sender_id = None, sender_wxid = None, self_display_name = None\<rparr>\<rparr>
   = py ''room1_room1''"
  by (simp add: image_cache_key_def image_sender_def primary_sender_def other_sender_def
        py_def)

section \<open>Properties of the image cache\<close>

lemma all_stale_scan:
  assumes "\<And>k. lookup_recent cache now k = None"
  shows "scan_keys cache now key ks = None"
  by (induction ks) (simp_all add: assms)

lemma all_stale_parts:
  assumes "\<And>k. lookup_recent cache now k = None"
  shows "try_parts cache now ps = None"
  by (induction ps) (simp_all add: assms)

lemma all_stale_group:
  assumes "\<And>k. lookup_recent cache now k = None"
  shows "group_lookup cache now ctx = None"
  by (simp add: group_lookup_def assms Let_def split: option.splits)

lemma all_stale_get:
  assumes "\<And>k. lookup_recent (image_cache st) now k = None"
  shows "get_recent_image st now ctx key = None"
  by (simp add: get_recent_image_def assms all_stale_scan[OF assms] all_stale_parts[OF assms]
        all_stale_group[OF assms])

lemma put_stores:
  assumes "image_datas \<noteq> []"
    and "list_all (\<lambda>d. length d > 100) image_datas"
    and "list_all opens image_datas"
  shows "image_cache (handle_image_message hash opens T ctx (Some image_datas) st)
           = AList.update (image_cache_key hash ctx) \<lparr>content = image_datas, timestamp = T\<rparr>
               (image_cache st)"
  using assms by (simp add: handle_image_message_def)

text \<open>
  Claim C5, as the specification states it: an entry written at time \<open>T\<close> is absent at
  exactly \<open>T + 300\<close>. An entry written at 1000 is still returned at 1300.
\<close>

theorem image_cache_boundary_counterexample:
  "get_recent_image
     ((new_plugin 0)
        \<lparr>image_cache := [(py ''alice'', \<lparr>content = [[1, 2, 3]], timestamp = 1000\<rparr>)]\<rparr>)
     1300 None (py ''alice'') \<noteq> None"
  by (simp add: get_recent_image_def lookup_recent_def new_plugin_def
        image_cache_timeout_def)

text \<open>
  Claim C5, amended. An entry that \<^verbatim>\<open>_handle_image_message\<close> writes at time \<open>T\<close> under
  its key is returned by \<^verbatim>\<open>_get_recent_image\<close> for that key, as its first buffer, at all
  times up to and including \<open>T + 300\<close> (the code tests \<^verbatim>\<open>time.time() - timestamp <= 300\<close>).
  After \<open>T + 300\<close> the sweep of the cache removes it, and the lookup is absent when no
  other entry of the cache is fresh (a fresh entry under another key can still be found
  by the later steps of the lookup).
\<close>

theorem image_cache_entry_lifetime:
  assumes "image_datas \<noteq> []"
    and "list_all (\<lambda>d. length d > 100) image_datas"
    and "list_all opens image_datas"
    and "st' = handle_image_message hash opens T ctx (Some image_datas) st"
    and "key = image_cache_key hash ctx"
  shows "(now \<le> T + 300 \<longrightarrow> get_recent_image st' now current_context key = Some (hd image_datas))
       \<and> (now > T + 300 \<longrightarrow> map_of (image_cache (cleanup_image_cache now st')) key = None)
       \<and> (now > T + 300
            \<and> (\<forall>(k, cd) \<in> set (image_cache st). k \<noteq> key \<longrightarrow> now - timestamp cd > 300)
          \<longrightarrow> get_recent_image st' now current_context key = None)"
proof (intro conjI impI)
  have c: "image_cache st'
             = AList.update key \<lparr>content = image_datas, timestamp = T\<rparr> (image_cache st)"
    using put_stores[OF assms(1-3)] assms(4,5) by simp
  have m: "map_of (image_cache st') key = Some \<lparr>content = image_datas, timestamp = T\<rparr>"
    by (simp add: c update_conv')
  obtain first rest where f: "image_datas = first # rest"
    using assms(1) by (cases image_datas) auto
  {
    assume "now \<le> T + 300"
    then show "get_recent_image st' now current_context key = Some (hd image_datas)"
      using m f by (simp add: get_recent_image_def lookup_recent_def image_cache_timeout_def)
  }
  {
    assume "now > T + 300"
    then have "key \<in> set (map fst (filter (\<lambda>(k, cd). now - timestamp cd > image_cache_timeout)
                                     (image_cache st')))"
      using map_of_SomeD[OF m] by (force simp: image_cache_timeout_def)
    then show "map_of (image_cache (cleanup_image_cache now st')) key = None"
      by (simp add: cleanup_image_cache_def Let_def map_of_fold_delete)
  }
  {
    assume a: "now > T + 300
            \<and> (\<forall>(k, cd) \<in> set (image_cache st). k \<noteq> key \<longrightarrow> now - timestamp cd > 300)"
    have "lookup_recent (image_cache st') now k = None" for k
    proof (cases "k = key")
      case True
      then show ?thesis using m a by (simp add: lookup_recent_def image_cache_timeout_def)
    next
      case False
      show ?thesis
      proof (cases "map_of (image_cache st) k")
        case None
        then show ?thesis using False by (simp add: lookup_recent_def c update_conv')
      next
        case (Some cd)
        then have "(k, cd) \<in> set (image_cache st)" by (rule map_of_SomeD)
        then have "now - timestamp cd > 300" using a False by auto
        then show ?thesis
          using Some False by (simp add: lookup_recent_def c update_conv' image_cache_timeout_def)
      qed
    qed
    then show "get_recent_image st' now current_context key = None"
      by (rule all_stale_get)
  }
qed

theorem image_cache_entry_lifetime_witness:
  "get_recent_image
     (handle_image_message hash_zero opens_always 1000
        \<lparr>ctype = IMAGE, ctx_content = [], session_id = py ''alice'',
         isgroup = False,
         msg = Some \<lparr>actual_user_id = Some (py ''alice''), from_user_id = None,
                     sender_id = None, sender_wxid = None, self_display_name = None\<rparr>\<rparr>
        (Some [replicate 101 7]) (new_plugin 0))
     1300 None (py ''alice'') = Some (replicate 101 7)
   \<and> map_of (image_cache (cleanup_image_cache 1301
        (handle_image_message hash_zero opens_always 1000
           \<lparr>ctype = IMAGE, ctx_content = [], session_id = py ''alice'',
         isgroup = False,
            msg = Some \<lparr>actual_user_id = Some (py ''alice''), from_user_id = None,
                        sender_id = None, sender_wxid = None, self_display_name = None\<rparr>\<rparr>
           (Some [replicate 101 7]) (new_plugin 0)))) (py ''alice'') = None
   \<and> get_recent_image
        (handle_image_message hash_zero opens_always 1000
           \<lparr>ctype = IMAGE, ctx_content = [], session_id = py ''alice'',
         isgroup = False,
            msg = Some \<lparr>actual_user_id = Some (py ''alice''), from_user_id = None,
                        sender_id = None, sender_wxid = None, self_display_name = None\<rparr>\<rparr>
           (Some [replicate 101 7]) (new_plugin 0))
        1301 None (py ''alice'') = None"
proof -
  let ?ctx = "\<lparr>ctype = IMAGE, ctx_content = [], session_id = py ''alice'',
         isgroup = False,
               msg = Some \<lparr>actual_user_id = Some (py ''alice''), from_user_id = None,
                           sender_id = None, sender_wxid = None,
                           self_display_name = None\<rparr>\<rparr>"
  let ?ds = "[replicate 101 (7 :: 8 word)]"
  let ?st = "handle_image_message hash_zero opens_always 1000 ?ctx (Some ?ds) (new_plugin 0)"
  have 1: "?ds \<noteq> []" by simp
  have 2: "list_all (\<lambda>d. length d > 100) ?ds" by simp
  have 3: "list_all opens_always ?ds" by (simp add: opens_always_def)
  have 5: "py ''alice'' = image_cache_key hash_zero ?ctx"
    by (simp add: image_cache_key_def image_sender_def primary_sender_def py_def)
  have 6: "\<forall>(k, cd) \<in> set (image_cache (new_plugin 0)).
             k \<noteq> py ''alice'' \<longrightarrow> 1301 - timestamp cd > 300"
    by (simp add: new_plugin_def)
  show ?thesis
    using image_cache_entry_lifetime
        [OF 1 2 3 refl 5, where now = 1300 and current_context = None]
      image_cache_entry_lifetime
        [OF 1 2 3 refl 5, where now = 1301 and current_context = None] 6
    by simp
qed

section \<open>Properties of the sweep of the image directory\<close>

lemma sweep_file_cases:
  "map_of (sweep_file images now age d n fs) q = None
   \<or> map_of (sweep_file images now age d n fs) q = map_of fs q"
  by (simp add: sweep_file_def Let_def delete_conv' split: option.splits)

lemma fold_sweep_None:
  "map_of fs q = None \<Longrightarrow> map_of (fold (sweep_file images now age d) ns fs) q = None"
proof (induction ns arbitrary: fs)
  case Nil
  then show ?case by simp
next
  case (Cons n ns)
  have "map_of (sweep_file images now age d n fs) q = None"
    using sweep_file_cases[of images now age d n fs q] Cons.prems by auto
  then show ?case using Cons.IH by simp
qed

lemma sweep_file_in_use:
  "in_use images q \<Longrightarrow> map_of (sweep_file images now age d n fs) q = map_of fs q"
  by (auto simp: sweep_file_def Let_def delete_conv' split: option.splits)

lemma fold_sweep_in_use:
  "in_use images q \<Longrightarrow> map_of (fold (sweep_file images now age d) ns fs) q = map_of fs q"
  by (induction ns arbitrary: fs) (simp_all add: sweep_file_in_use)

lemma sweep_file_deletes:
  assumes "map_of fs (path_join d n) = Some nd" "\<not> is_dir nd" "plugin_file n"
    "now - mtime nd > age" "\<not> in_use images (path_join d n)"
  shows "map_of (sweep_file images now age d n fs) (path_join d n) = None"
  using assms by (simp add: sweep_file_def Let_def delete_conv')

lemma fold_sweep_deletes:
  assumes "n \<in> set ns" "map_of fs (path_join d n) = Some nd" "\<not> is_dir nd" "plugin_file n"
    "now - mtime nd > age" "\<not> in_use images (path_join d n)"
  shows "map_of (fold (sweep_file images now age d) ns fs) (path_join d n) = None"
  using assms(1,2)
proof (induction ns arbitrary: fs)
  case Nil
  then show ?case by simp
next
  case (Cons m ns)
  let ?fs = "sweep_file images now age d m fs"
  consider (gone) "map_of ?fs (path_join d n) = None"
    | (same) "map_of ?fs (path_join d n) = Some nd"
    using sweep_file_cases[of images now age d m fs "path_join d n"] Cons.prems(2) by auto
  then show ?case
  proof cases
    case gone
    then show ?thesis using fold_sweep_None by simp
  next
    case same
    have "m \<noteq> n"
    proof
      assume "m = n"
      then have "map_of ?fs (path_join d n) = None"
        using sweep_file_deletes[OF Cons.prems(2) assms(3-6)] by simp
      then show False using same by simp
    qed
    then have "n \<in> set ns" using Cons.prems(1) by simp
    then show ?thesis using Cons.IH[OF _ same] by simp
  qed
qed

lemma child_name_join:
  assumes "n \<noteq> []" "47 \<notin> set n"
  shows "child_name d (path_join d n) = [n]"
proof -
  have h: "hd n \<noteq> 47" using assms by (cases n) auto
  show ?thesis using assms h by (simp add: child_name_def path_join_def Let_def)
qed

lemma listdir_member:
  assumes "map_of fs (path_join d n) = Some nd" "n \<noteq> []" "47 \<notin> set n"
  shows "n \<in> set (listdir fs d)"
proof -
  have "(path_join d n, nd) \<in> set fs" using assms(1) by (rule map_of_SomeD)
  then show ?thesis
    using child_name_join[OF assms(2,3), of d] by (force simp: listdir_def)
qed

lemma in_use_member:
  assumes "map_of images key = Some last_image" "path_in file_path last_image"
  shows "in_use images file_path"
proof -
  have "(key, last_image) \<in> set images" using assms(1) by (rule map_of_SomeD)
  then show ?thesis using assms(2) by (auto simp: in_use_def list_ex_iff)
qed

lemma sweep_file_other:
  "path_join d n \<noteq> q \<Longrightarrow> map_of (sweep_file images now age d n fs) q = map_of fs q"
  by (simp add: sweep_file_def Let_def delete_conv' split: option.splits)

lemma sweep_file_spared:
  assumes "map_of fs (path_join d n) = Some nd"
    and "is_dir nd \<or> \<not> plugin_file n \<or> now - mtime nd \<le> age"
  shows "map_of (sweep_file images now age d n fs) (path_join d n) = Some nd"
  using assms by (auto simp: sweep_file_def Let_def)

lemma fold_sweep_spared:
  assumes "map_of fs (path_join d n) = Some nd"
    and "is_dir nd \<or> \<not> plugin_file n \<or> now - mtime nd \<le> age"
    and "\<forall>m \<in> set ns. path_join d m = path_join d n \<longrightarrow> m = n"
  shows "map_of (fold (sweep_file images now age d) ns fs) (path_join d n) = Some nd"
  using assms(1,3)
proof (induction ns arbitrary: fs)
  case Nil
  then show ?case by simp
next
  case (Cons m ns)
  have "map_of (sweep_file images now age d m fs) (path_join d n) = Some nd"
  proof (cases "m = n")
    case True
    then show ?thesis using sweep_file_spared[OF Cons.prems(1) assms(2)] by simp
  next
    case False
    then have "path_join d m \<noteq> path_join d n" using Cons.prems(2) by auto
    then show ?thesis using sweep_file_other Cons.prems(1) by simp
  qed
  then show ?case using Cons.IH Cons.prems(2) by simp
qed

lemma child_name_plain: "n \<in> set (child_name d p) \<Longrightarrow> n \<noteq> [] \<and> 47 \<notin> set n"
  by (auto simp: child_name_def Let_def split: if_splits)

lemma listdir_plain: "n \<in> set (listdir fs d) \<Longrightarrow> n \<noteq> [] \<and> 47 \<notin> set n"
  using child_name_plain by (fastforce simp: listdir_def)

lemma path_join_plain:
  assumes "n \<noteq> []" "47 \<notin> set n"
  shows "path_join d n = (if d = [] \<or> last d = 47 then d else d @ [47]) @ n"
proof -
  have "hd n \<noteq> 47" using assms by (cases n) auto
  then show ?thesis by (simp add: path_join_def)
qed

lemma path_join_inj:
  assumes "n \<noteq> []" "47 \<notin> set n" "m \<noteq> []" "47 \<notin> set m" "path_join d m = path_join d n"
  shows "m = n"
  using assms(5) path_join_plain[OF assms(1,2), of d] path_join_plain[OF assms(3,4), of d]
  by simp

text \<open>
  Claim C8, as the specification states it: every old file of the directory that no
  entry of \<^verbatim>\<open>last_images\<close> refers to is deleted. A file whose name does not start with
  \<^verbatim>\<open>gemini_\<close>, \<^verbatim>\<open>edited_\<close> or \<^verbatim>\<open>temp_\<close> is never deleted, however old it is.
\<close>

theorem sweep_keeps_foreign_file_counterexample:
  "map_of (files (cleanup_temp_files (py ''/d'') 200000 24
      ((new_plugin 0)
         \<lparr>files := [(py ''/d'', \<lparr>is_dir = True, mtime = 0, data = []\<rparr>),
                    (py ''/d/notes.png'', \<lparr>is_dir = False, mtime = 0, data = [1]\<rparr>)]\<rparr>)))
     (py ''/d/notes.png'') \<noteq> None"
  by (simp add: cleanup_temp_files_def new_plugin_def path_exists_def py_def listdir_def
      child_name_def sweep_file_def path_join_def plugin_file_def startswith_def Let_def)

text \<open>
  Claim C8, amended. Take an entry directly in the image directory. If it is a regular
  file whose name starts with \<^verbatim>\<open>gemini_\<close>, \<^verbatim>\<open>edited_\<close> or \<^verbatim>\<open>temp_\<close> and whose age at
  the sweep is more than the threshold, then: if its path is in the list of some key's
  last images, or is some key's single last image, the file survives the sweep
  unchanged; if its path is in no list of last images and is not contained in any single
  last image path, the sweep deletes it. (A path that is a proper part of a single last
  image path is left aside.) If the entry is a directory, or its name starts with none
  of the three prefixes, or its age is not more than the threshold, it survives the
  sweep unchanged.
\<close>

theorem sweep_spares_referenced_files:
  assumes "path_exists (files st) directory"
    and "filename \<noteq> []" and "47 \<notin> set filename"
    and "file_path = path_join directory filename"
    and "map_of (files st) file_path = Some nd"
    and "st' = cleanup_temp_files directory current_time max_age_hours st"
  shows "(\<not> is_dir nd \<and> plugin_file filename
          \<and> current_time - mtime nd > max_age_hours * 3600 \<longrightarrow>
            ((\<exists>key ps. map_of (last_images st) key = Some (ImagePaths ps)
                        \<and> file_path \<in> set ps)
             \<or> (\<exists>key. map_of (last_images st) key = Some (ImagePath file_path))
             \<longrightarrow> map_of (files st') file_path = Some nd)
          \<and> (\<not> in_use (last_images st) file_path \<longrightarrow> map_of (files st') file_path = None))
       \<and> (is_dir nd \<or> \<not> plugin_file filename
          \<or> current_time - mtime nd \<le> max_age_hours * 3600 \<longrightarrow>
            map_of (files st') file_path = Some nd)"
proof (intro conjI impI)
  assume "(\<exists>key ps. map_of (last_images st) key = Some (ImagePaths ps) \<and> file_path \<in> set ps)
          \<or> (\<exists>key. map_of (last_images st) key = Some (ImagePath file_path))"
  then have "in_use (last_images st) file_path"
    by (auto intro: in_use_member)
  then show "map_of (files st') file_path = Some nd"
    using assms(1,5,6) by (simp add: cleanup_temp_files_def fold_sweep_in_use)
next
  assume a: "\<not> is_dir nd \<and> plugin_file filename
             \<and> current_time - mtime nd > max_age_hours * 3600"
    and nu: "\<not> in_use (last_images st) file_path"
  have m: "map_of (files st) (path_join directory filename) = Some nd"
    using assms(4,5) by simp
  have l: "filename \<in> set (listdir (files st) directory)"
    using listdir_member[OF m assms(2,3)] .
  have "map_of (fold (sweep_file (last_images st) current_time (max_age_hours * 3600) directory)
                  (listdir (files st) directory) (files st)) (path_join directory filename) = None"
    using fold_sweep_deletes[OF l m] a nu assms(4) by simp
  then show "map_of (files st') file_path = None"
    using assms(1,4,6) by (simp add: cleanup_temp_files_def)
next
  assume a: "is_dir nd \<or> \<not> plugin_file filename
             \<or> current_time - mtime nd \<le> max_age_hours * 3600"
  have m: "map_of (files st) (path_join directory filename) = Some nd"
    using assms(4,5) by simp
  have i: "\<forall>m \<in> set (listdir (files st) directory).
             path_join directory m = path_join directory filename \<longrightarrow> m = filename"
    using listdir_plain path_join_inj[OF assms(2,3)] by blast
  have "map_of (fold (sweep_file (last_images st) current_time (max_age_hours * 3600) directory)
                  (listdir (files st) directory) (files st)) (path_join directory filename)
          = Some nd"
    using fold_sweep_spared[OF m a i] .
  then show "map_of (files st') file_path = Some nd"
    using assms(1,4,6) by (simp add: cleanup_temp_files_def)
qed

theorem sweep_spares_referenced_files_witness:
  "map_of (files (cleanup_temp_files (py ''/d'') 200000 24 old_files)) (py ''/d/gemini_1.png'')
     = Some \<lparr>is_dir = False, mtime = 5, data = [1]\<rparr>
   \<and> map_of (files (cleanup_temp_files (py ''/d'') 200000 24 old_files)) (py ''/d/temp_2.png'')
       = None
   \<and> map_of (files (cleanup_temp_files (py ''/d'') 200000 24 old_files)) (py ''/d/temp_3'')
       = Some \<lparr>is_dir = True, mtime = 5, data = []\<rparr>
   \<and> map_of (files (cleanup_temp_files (py ''/d'') 200000 24 old_files)) (py ''/d/photo.png'')
       = Some \<lparr>is_dir = False, mtime = 5, data = [4]\<rparr>"
proof -
  let ?g = "\<lparr>is_dir = False, mtime = 5, data = [1 :: 8 word]\<rparr>"
  let ?t = "\<lparr>is_dir = False, mtime = 5, data = [2 :: 8 word]\<rparr>"
  let ?s = "\<lparr>is_dir = True, mtime = 5, data = [] :: 8 word list\<rparr>"
  let ?p = "\<lparr>is_dir = False, mtime = 5, data = [4 :: 8 word]\<rparr>"
  have e: "path_exists (files old_files) (py ''/d'')"
    by (simp add: old_files_def path_exists_def py_def)
  have g1: "py ''gemini_1.png'' \<noteq> []" and g2: "47 \<notin> set (py ''gemini_1.png'')"
    and g3: "py ''/d/gemini_1.png'' = path_join (py ''/d'') (py ''gemini_1.png'')"
    and g4: "map_of (files old_files) (py ''/d/gemini_1.png'') = Some ?g"
    and g5: "\<not> is_dir ?g \<and> plugin_file (py ''gemini_1.png'')
             \<and> 200000 - mtime ?g > 24 * 3600"
    by (simp_all add: old_files_def py_def path_join_def plugin_file_def startswith_def)
  have t1: "py ''temp_2.png'' \<noteq> []" and t2: "47 \<notin> set (py ''temp_2.png'')"
    and t3: "py ''/d/temp_2.png'' = path_join (py ''/d'') (py ''temp_2.png'')"
    and t4: "map_of (files old_files) (py ''/d/temp_2.png'') = Some ?t"
    and t5: "\<not> is_dir ?t \<and> plugin_file (py ''temp_2.png'')
             \<and> 200000 - mtime ?t > 24 * 3600"
    by (simp_all add: old_files_def py_def path_join_def plugin_file_def startswith_def)
  have s1: "py ''temp_3'' \<noteq> []" and s2: "47 \<notin> set (py ''temp_3'')"
    and s3: "py ''/d/temp_3'' = path_join (py ''/d'') (py ''temp_3'')"
    and s4: "map_of (files old_files) (py ''/d/temp_3'') = Some ?s"
    and s5: "is_dir ?s"
    by (simp_all add: old_files_def py_def path_join_def)
  have p1: "py ''photo.png'' \<noteq> []" and p2: "47 \<notin> set (py ''photo.png'')"
    and p3: "py ''/d/photo.png'' = path_join (py ''/d'') (py ''photo.png'')"
    and p4: "map_of (files old_files) (py ''/d/photo.png'') = Some ?p"
    and p5: "\<not> plugin_file (py ''photo.png'')"
    by (simp_all add: old_files_def py_def path_join_def plugin_file_def startswith_def)
  have r: "map_of (last_images old_files) (py ''alice'')
             = Some (ImagePaths [py ''/d/gemini_1.png''])
           \<and> py ''/d/gemini_1.png'' \<in> set [py ''/d/gemini_1.png'']"
    by (simp add: old_files_def)
  have u: "\<not> in_use (last_images old_files) (py ''/d/temp_2.png'')"
    by (simp add: old_files_def in_use_def py_def)
  show ?thesis
    using sweep_spares_referenced_files [OF e g1 g2 g3 g4 refl]
      sweep_spares_referenced_files [OF e t1 t2 t3 t4 refl]
      sweep_spares_referenced_files [OF e s1 s2 s3 s4 refl]
      sweep_spares_referenced_files [OF e p1 p2 p3 p4 refl] g5 t5 s5 p5 r u
    by blast
qed

section \<open>Properties of the command handlers\<close>

lemma history_of_lookup:
  "history_of key st = (h, st1) \<Longrightarrow> map_of (conversations st1) key = Some h"
  by (auto simp: history_of_def update_conv' split: option.splits)

lemma history_of_fst:
  "fst (history_of key st) = (case map_of (conversations st) key of Some h \<Rightarrow> h | None \<Rightarrow> [])"
  by (simp add: history_of_def split: option.splits)

lemma save_images_paths:
  "fst (save_images cfg env cts i k image_datas fs) = [] \<longleftrightarrow> (\<forall>d. Some d \<notin> set image_datas)"
proof (induction image_datas arbitrary: i k fs)
  case Nil
  then show ?case by simp
next
  case (Cons x xs)
  show ?case
  proof (cases x)
    case None
    then show ?thesis using Cons by simp
  next
    case (Some d)
    then show ?thesis by (auto simp: Let_def split: prod.splits)
  qed
qed

lemma generate_command_history:
  assumes "history_of key st0 = (h, st1)"
    and "generate_image (env_post env) (files st1) prompt h = (image_datas, text_responses)"
    and "Some d \<in> set image_datas"
    and "paths = fst (save_images cfg env (clean_texts_of text_responses) 0 0 image_datas
                        (files st1))"
  shows "map_of (conversations (generate_command cfg env key prompt st0)) key
           = Some (h @ map (\<lambda>w. user_turn [Text w]) (split prompt)
                     @ assistant_messages paths text_responses)"
proof -
  have ne: "image_datas \<noteq> []" using assms(3) by auto
  obtain fs where sv: "save_images cfg env (clean_texts_of text_responses) 0 0 image_datas
                         (files st1) = (paths, fs)"
    using assms(4) by (cases "save_images cfg env (clean_texts_of text_responses) 0 0
                                image_datas (files st1)") simp
  have pne: "paths \<noteq> []"
    using save_images_paths[of cfg env "clean_texts_of text_responses" 0 0 image_datas
        "files st1"] assms(3) sv by auto
  have l: "map_of (conversations st1) key = Some h"
    using assms(1) by (rule history_of_lookup)
  show ?thesis
    using assms(1,2) ne sv pne l
    by (simp add: generate_command_def Let_def extend_history_def touch_def update_conv')
qed


lemma length_five_exchanges: "length five_exchanges = 10"
  by (simp add: five_exchanges_def length_concat numeral_eq_Suc)

lemma length_save_images:
  "length (fst (save_images cfg env cts i k image_datas fs))
     = length (filter (\<lambda>x. x \<noteq> None) image_datas)"
proof (induction image_datas arbitrary: i k fs)
  case Nil
  then show ?case by simp
next
  case (Cons x xs)
  show ?case
  proof (cases x)
    case None
    then show ?thesis using Cons by simp
  next
    case (Some d)
    then show ?thesis using Cons by (simp add: Let_def case_prod_beta)
  qed
qed

lemma one_image_generated:
  "generate_image (env_post (example_env one_image t)) fs prompt h = ([Some [1, 2, 3]], [None])"
  by (simp add: generate_image_def example_env_def answering_def one_image_def
        generate_parts_def text_part_def no_image_def some_text_def)

lemma draw_text_is_generate_command:
  "on_handle_context example_config (example_env outcome 1000) (text_from_alice (py ''$draw cat''))
     after_five_exchanges
   = generate_command example_config (example_env outcome 1000) (py ''alice'') (py ''cat'')
       after_five_exchanges"
  by (simp add: on_handle_context_def example_config_def example_env_def text_from_alice_def
        after_five_exchanges_def new_plugin_def cleanup_expired_conversations_def
        cleanup_image_cache_def nightly_cleanup_def conversation_expiry_def Let_def
        strip_def isspace_def py_def command_prompt_def startswith_def)










text \<open>
  Claim C1. The key \<^verbatim>\<open>alice\<close> has a history of ten turns. She sends \<^verbatim>\<open>$draw cat\<close>, the
  API answers with one image, and the handler adds a user turn and a model turn. The
  history stored for her then has twelve turns: the line that is to limit the history
  to ten turns assigns the shortened list to the local name
  \<^verbatim>\<open>conversation_history\<close> only, and the list in \<^verbatim>\<open>self.conversations\<close> stays as long
  as it is.
\<close>

theorem stored_history_grows_beyond_ten_turns:
  "\<exists>h. map_of (conversations
              (on_handle_context example_config (example_env one_image 1000)
                 (text_from_alice (py ''$draw cat'')) after_five_exchanges))
           (py ''alice'') = Some h
       \<and> length h = 12"
proof -
  define paths where
    "paths = fst (save_images example_config (example_env one_image 1000)
                    (clean_texts_of [None]) 0 0 [Some [1, 2, 3]] (files after_five_exchanges))"
  have h: "history_of (py ''alice'') after_five_exchanges
             = (five_exchanges, after_five_exchanges)"
    by (simp add: history_of_def after_five_exchanges_def)
  have m: "Some [1, 2, 3] \<in> set [Some [1, 2, 3 :: 8 word]]" by simp
  have s: "split (py ''cat'') = [py ''cat'']"
    by (simp add: py_def isspace_def)
  have l: "length paths = 1"
    unfolding paths_def length_save_images by simp
  have "map_of (conversations
           (generate_command example_config (example_env one_image 1000) (py ''alice'')
              (py ''cat'') after_five_exchanges)) (py ''alice'')
          = Some (five_exchanges @ map (\<lambda>w. user_turn [Text w]) (split (py ''cat''))
                    @ assistant_messages paths [None])"
    using generate_command_history [OF h one_image_generated m paths_def] .
  then show ?thesis
    by (simp add: draw_text_is_generate_command s length_five_exchanges assistant_messages_def l)
qed

lemma generate_image_raised:
  "post (build_request fs [ReqText prompt] h) = Raised e \<Longrightarrow>
     generate_image post fs prompt h = ([], [Some (generate_failed @ diagnostic e)])"
  by (simp add: generate_image_def)

lemma edit_image_raised:
  "post (build_request fs [ReqText prompt, ReqInline image_png i] h) = Raised e \<Longrightarrow>
     edit_image post dumps fs prompt [i] h = (None, Some (edit_failed @ diagnostic e))"
  by (simp add: edit_image_def)

lemma generate_command_failed:
  assumes "\<forall>req. \<exists>e. env_post env req = Raised e"
  shows "generate_command cfg env key prompt st = snd (history_of key st)"
proof -
  obtain h st1 where h: "history_of key st = (h, st1)" by force
  obtain e where "env_post env (build_request (files st1) [ReqText prompt] h) = Raised e"
    using assms by blast
  then show ?thesis using h
    by (simp add: generate_command_def generate_image_raised)
qed

lemma edit_command_failed:
  assumes "\<forall>req. \<exists>e. env_post env req = Raised e"
    and "get_recent_image st (env_now env) (env_context env) key = Some image_data"
    and "image_data \<noteq> []"
    and "image_path = path_join (save_dir cfg) (file_name (py ''temp'') env 0 [])"
  shows "edit_command cfg env key prompt st
           = snd (history_of key
               (st\<lparr>files := write_file (files st) image_path image_data (env_now env),
                   last_images := AList.update key (ImagePath image_path) (last_images st)\<rparr>))"
proof -
  let ?st = "st\<lparr>files := write_file (files st) image_path image_data (env_now env),
                last_images := AList.update key (ImagePath image_path) (last_images st)\<rparr>"
  obtain h st1 where h: "history_of key ?st = (h, st1)" by force
  obtain e where "env_post env (build_request (files st1)
                     [ReqText prompt, ReqInline image_png image_data] h) = Raised e"
    using assms(1) by blast
  then show ?thesis using h assms(2,3,4)
    by (simp add: edit_command_def Let_def edit_image_raised)
qed

lemma continue_conversation_failed:
  assumes "\<forall>req. \<exists>e. env_post env req = Raised e"
  shows "continue_conversation cfg env key t st = st
       \<or> continue_conversation cfg env key t st = snd (history_of key st)"
proof -
  obtain h st1 where h: "history_of key st = (h, st1)" by force
  have "\<And>i. \<exists>e. env_post env (build_request (files st1)
                     [ReqText t, ReqInline image_png i] h) = Raised e"
    using assms by blast
  then have "\<And>i. edit_image (env_post env) (env_dumps env) (files st1) t [i] h
               = (None, Some (edit_failed @ diagnostic
                   (SOME e. env_post env (build_request (files st1)
                     [ReqText t, ReqInline image_png i] h) = Raised e)))"
    by (metis (mono_tags, lifting) edit_image_raised someI_ex)
  then show ?thesis using h
    by (auto simp: continue_conversation_def Let_def split: option.splits)
qed

lemma snd_history_of_same:
  "fst (history_of key (snd (history_of key st))) = fst (history_of key st)"
  "conversation_timestamps (snd (history_of key st)) = conversation_timestamps st"
  "last_images (snd (history_of key st)) = last_images st"
  by (auto simp: history_of_def update_conv' split: option.splits)

lemma edit_text_is_edit_command:
  "on_handle_context example_config (example_env outcome 1000) (text_from_alice (py ''$edit red''))
     with_cached_image
   = edit_command example_config (example_env outcome 1000) (py ''alice'') (py ''red'')
       with_cached_image"
  by (simp add: on_handle_context_def example_config_def example_env_def text_from_alice_def
        with_cached_image_def new_plugin_def cleanup_expired_conversations_def
        cleanup_image_cache_def nightly_cleanup_def image_cache_timeout_def Let_def
        strip_def isspace_def py_def command_prompt_def startswith_def)

lemma cached_image_found:
  "get_recent_image with_cached_image 1000 None (py ''alice'') = Some [1, 2, 3]"
  by (simp add: get_recent_image_def lookup_recent_def with_cached_image_def new_plugin_def
        image_cache_timeout_def)

text \<open>
  Claim C3, as the specification states it: after a transport failure inside an edit
  the last image of the key is as before. \<^verbatim>\<open>alice\<close> sent an image, has no last image,
  and sends \<^verbatim>\<open>$edit red\<close>; the request times out. The handler has stored the path of
  the file it wrote for her cached image as her last image before it called the API.
\<close>

theorem failed_edit_changes_last_image_counterexample:
  "map_of (last_images
      (on_handle_context example_config
         (example_env (Raised (ReadTimeout (py ''timed out''))) 1000)
         (text_from_alice (py ''$edit red'')) with_cached_image)) (py ''alice'')
   \<noteq> map_of (last_images with_cached_image) (py ''alice'')"
proof -
  have r: "\<forall>req. \<exists>e. env_post (example_env (Raised (ReadTimeout (py ''timed out''))) 1000) req
             = Raised e"
    by (simp add: example_env_def answering_def)
  have g: "get_recent_image with_cached_image
             (env_now (example_env (Raised (ReadTimeout (py ''timed out''))) 1000))
             (env_context (example_env (Raised (ReadTimeout (py ''timed out''))) 1000))
             (py ''alice'') = Some [1, 2, 3]"
    using cached_image_found by (simp add: example_env_def)
  have n: "[1, 2, 3 :: 8 word] \<noteq> []" by simp
  have b: "map_of (last_images with_cached_image) (py ''alice'') = None"
    by (simp add: with_cached_image_def new_plugin_def)
  have a: "map_of (last_images
             (edit_command example_config
                (example_env (Raised (ReadTimeout (py ''timed out''))) 1000)
                (py ''alice'') (py ''red'') with_cached_image)) (py ''alice'') \<noteq> None"
    by (simp add: edit_command_failed [OF r g n refl, of example_config "py ''red''"]
          snd_history_of_same update_conv')
  show ?thesis
    using a b by (simp add: edit_text_is_edit_command)
qed


text \<open>
  Claim C3, amended. When every request fails with a transport error, none of the three
  handlers appends a turn to the history of the key or changes an activity stamp. The
  generation and the continuation of a conversation leave the last images as they are.
  The edit command takes its image from the cache: when the cache gives one, the
  handler has written it to a file and stored the path of that file as the last image
  of the key before the request, and this entry stays; when the cache gives none, the
  handler returns before any request and changes nothing.
\<close>

theorem transport_failure_keeps_history_and_activity:
  assumes "\<forall>req. \<exists>e. env_post env req = Raised e"
    and "g = generate_command cfg env key prompt st"
    and "e = edit_command cfg env key prompt st"
    and "c = continue_conversation cfg env key prompt st"
  shows "fst (history_of key g) = fst (history_of key st)
       \<and> conversation_timestamps g = conversation_timestamps st
       \<and> last_images g = last_images st
       \<and> fst (history_of key e) = fst (history_of key st)
       \<and> conversation_timestamps e = conversation_timestamps st
       \<and> (truthy (get_recent_image st (env_now env) (env_context env) key) \<longrightarrow>
            last_images e
              = AList.update key
                  (ImagePath (path_join (save_dir cfg) (file_name (py ''temp'') env 0 [])))
                  (last_images st))
       \<and> (\<not> truthy (get_recent_image st (env_now env) (env_context env) key) \<longrightarrow> e = st)
       \<and> fst (history_of key c) = fst (history_of key st)
       \<and> conversation_timestamps c = conversation_timestamps st
       \<and> last_images c = last_images st"
proof -
  have g: "g = snd (history_of key st)"
    using generate_command_failed[OF assms(1)] assms(2) by simp
  have c: "c = st \<or> c = snd (history_of key st)"
    using continue_conversation_failed[OF assms(1)] assms(4) by simp
  have e2: "\<not> truthy (get_recent_image st (env_now env) (env_context env) key) \<Longrightarrow> e = st"
    using assms(3) by (simp add: edit_command_def)
  have e1: "fst (history_of key e) = fst (history_of key st)
       \<and> conversation_timestamps e = conversation_timestamps st
       \<and> last_images e
              = AList.update key
                  (ImagePath (path_join (save_dir cfg) (file_name (py ''temp'') env 0 [])))
                  (last_images st)"
    if t: "truthy (get_recent_image st (env_now env) (env_context env) key)"
  proof -
    obtain d where d: "get_recent_image st (env_now env) (env_context env) key = Some d"
      and dn: "d \<noteq> []"
      using t by (cases "get_recent_image st (env_now env) (env_context env) key") auto
    let ?p = "path_join (save_dir cfg) (file_name (py ''temp'') env 0 [])"
    let ?st = "st\<lparr>files := write_file (files st) ?p d (env_now env),
                  last_images := AList.update key (ImagePath ?p) (last_images st)\<rparr>"
    have ev: "e = snd (history_of key ?st)"
      using edit_command_failed[OF assms(1) d dn refl, of cfg prompt] assms(3) by simp
    have h1: "fst (history_of key ?st) = fst (history_of key st)"
      by (simp add: history_of_fst)
    show ?thesis
      using ev h1 snd_history_of_same[of key ?st] by simp
  qed
  show ?thesis
    using g c e1 e2 by (auto simp: snd_history_of_same)
qed


theorem transport_failure_keeps_history_and_activity_witness:
  "fst (history_of (py ''alice'')
         (generate_command example_config
            (example_env (Raised (ReadTimeout (py ''timed out''))) 1000)
            (py ''alice'') (py ''red'') with_cached_image))
     = fst (history_of (py ''alice'') with_cached_image)
   \<and> last_images
        (generate_command example_config
           (example_env (Raised (ReadTimeout (py ''timed out''))) 1000)
           (py ''alice'') (py ''red'') with_cached_image)
       = last_images with_cached_image
   \<and> conversation_timestamps
        (edit_command example_config
           (example_env (Raised (ReadTimeout (py ''timed out''))) 1000)
           (py ''alice'') (py ''red'') with_cached_image)
       = conversation_timestamps with_cached_image
   \<and> last_images
        (edit_command example_config
           (example_env (Raised (ReadTimeout (py ''timed out''))) 1000)
           (py ''alice'') (py ''red'') with_cached_image)
       = AList.update (py ''alice'')
           (ImagePath (path_join (save_dir example_config)
              (file_name (py ''temp'')
                 (example_env (Raised (ReadTimeout (py ''timed out''))) 1000) 0 [])))
           (last_images with_cached_image)
   \<and> edit_command example_config
        (example_env (Raised (ReadTimeout (py ''timed out''))) 1000)
        (py ''alice'') (py ''red'') (new_plugin 0)
       = new_plugin 0"
proof -
  let ?env = "example_env (Raised (ReadTimeout (py ''timed out''))) 1000"
  have r: "\<forall>req. \<exists>e. env_post ?env req = Raised e"
    by (simp add: example_env_def answering_def)
  have t: "truthy (get_recent_image with_cached_image (env_now ?env) (env_context ?env)
                     (py ''alice''))"
    using cached_image_found by (simp add: example_env_def)
  have n: "\<not> truthy (get_recent_image (new_plugin 0) (env_now ?env) (env_context ?env)
                       (py ''alice''))"
    by (simp add: get_recent_image_def lookup_recent_def new_plugin_def example_env_def
          group_lookup_def py_def)
  show ?thesis
    using transport_failure_keeps_history_and_activity
        [OF r refl refl refl, where cfg = example_config and key = "py ''alice''"
           and prompt = "py ''red''" and st = with_cached_image]
      transport_failure_keeps_history_and_activity
        [OF r refl refl refl, where cfg = example_config and key = "py ''alice''"
           and prompt = "py ''red''" and st = "new_plugin 0"]
      t n
    by simp
qed

section \<open>Properties of expiry and activity\<close>











end
